theory Spec2Isabelle
  imports Main "HOL-Library.AList"
begin

section \<open>Python values shared by the whole development\<close>

text \<open>
  The module \<^verbatim>\<open>piston/resource.py\<close> is embedded function by function. A Python
  \<^verbatim>\<open>dict\<close> is an association list with distinct keys; \<^verbatim>\<open>d[k] = v\<close> is
  \<^const>\<open>AList.update\<close> (replace in place, else append) and \<^verbatim>\<open>d.get(k)\<close> is
  \<^const>\<open>map_of\<close>. The iteration order of a Python 2 dict is not specified, so every
  statement below is about keys and lookups, never about positions.

  Exceptions are values: a function that can raise returns \<open>exc + 'a\<close>, with
  \<open>Inl\<close> the exception that leaves the function.
\<close>

datatype exc =
    KeyError
  | Http404
  | NotImplementedError
  | MimerDataException
  | UnsupportedMediaTypeException
  | DoesNotExist
  | MultipleObjectsReturned
  | OtherException string

datatype pyval = PyNone | PyInt int | PyStr string

text \<open>\<^verbatim>\<open>d.get(k)\<close> on a dict of values: \<^verbatim>\<open>None\<close> for a missing key.\<close>

definition dict_get :: "(string \<times> pyval) list \<Rightarrow> string \<Rightarrow> pyval" where
  "dict_get d k = (case map_of d k of None \<Rightarrow> PyNone | Some v \<Rightarrow> v)"

text \<open>\<^verbatim>\<open>dict(pairs)\<close>: the pairs are stored in turn, a later one replacing an earlier.\<close>

definition py_dict :: "('k \<times> 'v) list \<Rightarrow> ('k \<times> 'v) list" where
  "py_dict pairs = fold (\<lambda>(k, v) d. AList.update k v d) pairs []"

section \<open>\<^verbatim>\<open>PermissionsResource\<close>\<close>

text \<open>
  A validator is a classmethod \<^verbatim>\<open>(request, obj=None, via=None) -> bool\<close>. A class is
  the record of its attributes after method resolution: \<open>allowed_methods\<close> and the four
  validators, each of which a subclass can override.
\<close>

type_synonym ('rq, 'ob, 'vi) validator = "'rq \<Rightarrow> 'ob option \<Rightarrow> 'vi option \<Rightarrow> bool"

record ('rq, 'ob, 'vi) permissions_resource =
  allowed_methods :: "string list"
  has_read_permission :: "('rq, 'ob, 'vi) validator"
  has_create_permission :: "('rq, 'ob, 'vi) validator"
  has_update_permission :: "('rq, 'ob, 'vi) validator"
  has_delete_permission :: "('rq, 'ob, 'vi) validator"

text \<open>
  The class as the source declares it, for a given \<^verbatim>\<open>allowed_methods\<close> tuple (the
  source's own is \<^verbatim>\<open>('GET', 'POST', 'PUT', 'DELETE')\<close>): each default validator is
  \<^verbatim>\<open>return 'GET' in cls.allowed_methods\<close> and its siblings.
\<close>

definition PermissionsResource :: "string list \<Rightarrow> ('rq, 'ob, 'vi) permissions_resource" where
  "PermissionsResource methods =
     \<lparr> allowed_methods = methods,
       has_read_permission = (\<lambda>request obj via. ''GET'' \<in> set methods),
       has_create_permission = (\<lambda>request obj via. ''POST'' \<in> set methods),
       has_update_permission = (\<lambda>request obj via. ''PUT'' \<in> set methods),
       has_delete_permission = (\<lambda>request obj via. ''DELETE'' \<in> set methods) \<rparr>"

definition all_permissions_validators ::
  "('rq, 'ob, 'vi) permissions_resource \<Rightarrow> (string \<times> ('rq, 'ob, 'vi) validator) list" where
  "all_permissions_validators cls =
     [(''GET'', has_read_permission cls),
      (''PUT'', has_update_permission cls),
      (''POST'', has_create_permission cls),
      (''DELETE'', has_delete_permission cls)]"

text \<open>\<^verbatim>\<open>if restricted_methods:\<close> is false for \<^verbatim>\<open>None\<close> and for an empty collection.\<close>

fun truthy :: "'a list option \<Rightarrow> bool" where
  "truthy None = False"
| "truthy (Some xs) = (xs \<noteq> [])"

text \<open>\<^verbatim>\<open>set(xs)\<close>, and \<^verbatim>\<open>set(xs) & set(ys)\<close>, as duplicate-free lists.\<close>

definition py_set :: "'a list \<Rightarrow> 'a list" where
  "py_set xs = remdups xs"

definition py_set_inter :: "'a list \<Rightarrow> 'a list \<Rightarrow> 'a list" where
  "py_set_inter xs ys = filter (\<lambda>x. x \<in> set ys) (py_set xs)"

text \<open>
  The loop \<^verbatim>\<open>for allowed_method in allowed_methods: permissions_validators[allowed_method]
  = all_permissions_validators[allowed_method]\<close>. Subscripting a dict with a missing key
  raises \<^verbatim>\<open>KeyError\<close>.
\<close>

fun collect_validators ::
  "(string \<times> 'v) list \<Rightarrow> string list \<Rightarrow> (string \<times> 'v) list \<Rightarrow> exc + (string \<times> 'v) list" where
  "collect_validators table [] permissions_validators = Inr permissions_validators"
| "collect_validators table (allowed_method # rest) permissions_validators =
     (case map_of table allowed_method of
        None \<Rightarrow> Inl KeyError
      | Some validator \<Rightarrow>
          collect_validators table rest
            (AList.update allowed_method validator permissions_validators))"

definition get_permission_validators ::
  "('rq, 'ob, 'vi) permissions_resource \<Rightarrow> string list option
     \<Rightarrow> exc + (string \<times> ('rq, 'ob, 'vi) validator) list" where
  "get_permission_validators cls restricted_methods =
     (let allowed =
            (if truthy restricted_methods
             then py_set_inter (the restricted_methods) (allowed_methods cls)
             else py_set (allowed_methods cls))
      in collect_validators (all_permissions_validators cls) allowed [])"

text \<open>
  \<^verbatim>\<open>BaseResource.get_allowed_methods\<close>: each validator of the mapping is called as
  \<^verbatim>\<open>validator(request, obj)\<close>, so \<^verbatim>\<open>via\<close> takes its default \<^verbatim>\<open>None\<close>.
\<close>

definition get_allowed_methods ::
  "('rq, 'ob, 'vi) permissions_resource \<Rightarrow> 'rq \<Rightarrow> 'ob option \<Rightarrow> string list option
     \<Rightarrow> exc + string list" where
  "get_allowed_methods cls request obj restricted_methods =
     (case get_permission_validators cls restricted_methods of
        Inl e \<Rightarrow> Inl e
      | Inr validators \<Rightarrow>
          Inr (map fst (filter (\<lambda>(method, validator). validator request obj None) validators)))"

text \<open>
  The set of verbs the loop of \<^verbatim>\<open>get_permission_validators\<close> runs over: the
  class's allowed verbs, cut down by the restriction when that is truthy.
\<close>

definition effective_methods ::
  "('rq, 'ob, 'vi) permissions_resource \<Rightarrow> string list option \<Rightarrow> string set" where
  "effective_methods cls restricted_methods =
     (if truthy restricted_methods
      then set (the restricted_methods) \<inter> set (allowed_methods cls)
      else set (allowed_methods cls))"

section \<open>Requests, records, results\<close>

text \<open>
  The request as this module reads it: \<^verbatim>\<open>request.method\<close>, \<^verbatim>\<open>request.META\<close> and, once
  deserialized, \<^verbatim>\<open>request.data\<close>.
\<close>

record request =
  "method" :: string
  META :: "(string \<times> string) list"
  data :: "(string \<times> pyval) list"

text \<open>\<^verbatim>\<open>request.META.get(name, '')\<close>.\<close>

definition meta_get :: "request \<Rightarrow> string \<Rightarrow> string" where
  "meta_get request name = (case map_of (META request) name of None \<Rightarrow> [] | Some v \<Rightarrow> v)"

text \<open>\<^verbatim>\<open>s.split(sep)\<close> for a one-character separator: never the empty list.\<close>

fun split_str :: "char \<Rightarrow> string \<Rightarrow> string list" where
  "split_str sep [] = [[]]"
| "split_str sep (c # cs) =
     (if c = sep then [] # split_str sep cs
      else (case split_str sep cs of w # ws \<Rightarrow> (c # w) # ws | [] \<Rightarrow> [[c]]))"

text \<open>\<^verbatim>\<open>sep.join(xs)\<close>.\<close>

fun join_str :: "string \<Rightarrow> string list \<Rightarrow> string" where
  "join_str sep [] = []"
| "join_str sep [x] = x"
| "join_str sep (x # y # ys) = x @ sep @ join_str sep (y # ys)"

text \<open>\<^verbatim>\<open>s.upper()\<close> on ASCII.\<close>

definition upper_char :: "char \<Rightarrow> char" where
  "upper_char c =
     (case map_of (zip ''abcdefghijklmnopqrstuvwxyz'' ''ABCDEFGHIJKLMNOPQRSTUVWXYZ'') c of
        Some u \<Rightarrow> u
      | None \<Rightarrow> c)"

definition upper :: "string \<Rightarrow> string" where
  "upper s = map upper_char s"

text \<open>
  A model instance: its field values, and the identity of the stored record it was
  loaded from or saved as (\<open>None\<close> while it has never been saved).
\<close>

record inst =
  row_id :: "nat option"
  field_values :: "(string \<times> pyval) list"

record http_response =
  status_code :: nat
  container :: "string list"
  content_type :: string
  headers :: "(string \<times> string) list"

datatype sentinel =
    ALL_OK
  | DELETED
  | BAD_REQUEST
  | NOT_FOUND
  | UNSUPPORTED_MEDIA_TYPE
  | DUPLICATE_ENTRY
  | NOT_HERE

text \<open>
  Modelled from the spec: \<^verbatim>\<open>rc\<close> of \<^verbatim>\<open>piston/utils.py\<close>, which is not among the
  sources. Section 6 of the specification lists the sentinel results with their status
  codes, and section 4.2 has a sentinel normalised like a raw transport-level response:
  its status is extracted and its body content becomes the payload. The body content of
  a sentinel is not specified, so it stays symbolic (\<open>RcContainer\<close> below).
\<close>

fun rc_status_code :: "sentinel \<Rightarrow> nat" where
  "rc_status_code ALL_OK = 200"
| "rc_status_code DELETED = 204"
| "rc_status_code BAD_REQUEST = 400"
| "rc_status_code NOT_FOUND = 404"
| "rc_status_code UNSUPPORTED_MEDIA_TYPE = 415"
| "rc_status_code DUPLICATE_ENTRY = 409"
| "rc_status_code NOT_HERE = 404"

text \<open>
  What a CRUD method returns, and what \<^verbatim>\<open>get_result\<close> turns it into: a record, a
  \<^verbatim>\<open>QuerySet\<close>, a plain list or tuple of records (what an overriding method can
  return), an \<^verbatim>\<open>rc\<close> sentinel or another \<^verbatim>\<open>HttpResponse\<close>, a
  \<^verbatim>\<open>HeadersResult\<close> carrying a result, headers and a status; and, after
  normalisation, the \<^verbatim>\<open>_container\<close> of a response.
\<close>

datatype result =
    Instance inst
  | QuerySet "inst list"
  | Sequence "inst list"
  | Rc sentinel
  | Response http_response
  | HeadersResult result "(string \<times> string) list" nat
  | Container "string list"
  | RcContainer sentinel

fun is_QuerySet :: "result \<Rightarrow> bool" where
  "is_QuerySet (QuerySet rows) = True"
| "is_QuerySet other = False"

section \<open>Field selection: \<^verbatim>\<open>BaseModelResource.get_fields\<close>\<close>

text \<open>
  A field declaration is a tuple whose items are a name or a pair of a name and the
  declaration of the related object's fields.
\<close>

datatype field = Name string | Nested string "field list"

datatype fields_dict = Dict "(string \<times> fields_dict) list"

fun field_name :: "field \<Rightarrow> string" where
  "field_name (Name n) = n"
| "field_name (Nested n sub) = n"

text \<open>
  Modelled from the spec: \<^verbatim>\<open>list_to_dict\<close> of \<^verbatim>\<open>piston/utils.py\<close>, which is not
  among the sources. Section 4.3 step 1 builds the allowed-field mapping from the field
  declaration, with nested specs for related objects; section 9 gives the field spec as
  a tree of leaf names and named sub-lists. A name maps to the mapping of its
  sub-fields, empty for a leaf.
\<close>

fun list_to_dict_into ::
  "field list \<Rightarrow> (string \<times> fields_dict) list \<Rightarrow> (string \<times> fields_dict) list" where
  "list_to_dict_into [] dict_obj = dict_obj"
| "list_to_dict_into (Name val # rest) dict_obj =
     list_to_dict_into rest (AList.update val (Dict []) dict_obj)"
| "list_to_dict_into (Nested key sub # rest) dict_obj =
     list_to_dict_into rest (AList.update key (Dict (list_to_dict_into sub [])) dict_obj)"

definition list_to_dict :: "field list \<Rightarrow> (string \<times> fields_dict) list" where
  "list_to_dict list_obj = list_to_dict_into list_obj []"

text \<open>
  Modelled from the spec: \<^verbatim>\<open>dict_to_list\<close> of \<^verbatim>\<open>piston/utils.py\<close>, which is not
  among the sources. Section 4.3 step 5 returns the resulting field spec, preserving the
  declared nesting: a name with a non-empty sub-mapping becomes a named sub-list, any
  other a leaf.
\<close>

fun dict_to_list :: "(string \<times> fields_dict) list \<Rightarrow> field list" where
  "dict_to_list [] = []"
| "dict_to_list ((key, Dict val) # rest) =
     (if val \<noteq> [] then Nested key (dict_to_list val) else Name key) # dict_to_list rest"

text \<open>
  Modelled from the spec: \<^verbatim>\<open>flat_list\<close> of \<^verbatim>\<open>piston/utils.py\<close>, which is not among
  the sources. Section 6 has the \<^verbatim>\<open>X-Fields-Options\<close> header carry the flattened list of
  all declared fields: their names.
\<close>

definition flat_list :: "field list \<Rightarrow> string list" where
  "flat_list list_obj = map field_name list_obj"

text \<open>
  The attributes of a \<^verbatim>\<open>BaseModelResource\<close> the methods below read:
  \<^verbatim>\<open>self.fields\<close> (here \<open>self_fields\<close>, since \<open>fields\<close> is taken by the
  record package), the two default field lists of \<^verbatim>\<open>DefaultRestModelResource\<close>,
  and \<^verbatim>\<open>self.model._meta.pk.name\<close>.
\<close>

record model_resource =
  self_fields :: "field list"
  default_obj_fields :: "field list"
  default_list_fields :: "field list"
  pk_name :: string

text \<open>
  The loop \<^verbatim>\<open>for field in names: if field in allowed_fields: fields[field] =
  allowed_fields.get(field)\<close>, which \<^verbatim>\<open>get_fields\<close> runs once for each header.
\<close>

fun select_fields ::
  "string list \<Rightarrow> (string \<times> 'v) list \<Rightarrow> (string \<times> 'v) list \<Rightarrow> (string \<times> 'v) list" where
  "select_fields [] allowed_fields selected = selected"
| "select_fields (field # rest) allowed_fields selected =
     (case map_of allowed_fields field of
        None \<Rightarrow> select_fields rest allowed_fields selected
      | Some sub \<Rightarrow> select_fields rest allowed_fields (AList.update field sub selected))"

definition get_fields :: "model_resource \<Rightarrow> request \<Rightarrow> result \<Rightarrow> field list" where
  "get_fields self request result =
     (let allowed_fields = list_to_dict (self_fields self);
          x_fields = meta_get request ''HTTP_X_FIELDS'';
          explicit = select_fields (split_str CHR '','' x_fields) allowed_fields []
      in if explicit \<noteq> [] then dict_to_list explicit
         else
           let defaults = (if is_QuerySet result then default_list_fields self
                           else default_obj_fields self);
               x_extra_fields = meta_get request ''HTTP_X_EXTRA_FIELDS''
           in dict_to_list
                (select_fields (split_str CHR '','' x_extra_fields) allowed_fields
                   (list_to_dict defaults)))"

section \<open>The record store\<close>

text \<open>
  Modelled from the spec: the persistent store and its query mechanism, which this
  module reaches through \<^verbatim>\<open>self.model.objects\<close> and which is not among the sources.
  Sections 1 and 4.4 of the specification describe it as an opaque collection of
  records with get, filter, save and delete, where get raises "not found" or "multiple
  found". Here a stored record is its field values under an identity the store gave it;
  a lookup compares field values for equality, after the positional criteria (any
  predicates on a record); the primary key is the field that \<open>pk_name\<close> names, and
  nothing makes it unique by itself, so that the "multiple found" branches of the
  code stay reachable.
\<close>

type_synonym store = "(nat \<times> (string \<times> pyval) list) list"

definition objects_all :: "store \<Rightarrow> inst list" where
  "objects_all s = map (\<lambda>(i, vals). \<lparr> row_id = Some i, field_values = vals \<rparr>) s"

definition matches :: "(inst \<Rightarrow> bool) list \<Rightarrow> (string \<times> pyval) list \<Rightarrow> inst \<Rightarrow> bool" where
  "matches args kwargs obj =
     (list_all (\<lambda>q. q obj) args
      \<and> list_all (\<lambda>(k, v). map_of (field_values obj) k = Some v) kwargs)"

definition qs_filter ::
  "inst list \<Rightarrow> (inst \<Rightarrow> bool) list \<Rightarrow> (string \<times> pyval) list \<Rightarrow> inst list" where
  "qs_filter qs args kwargs = filter (matches args kwargs) qs"

definition qs_get ::
  "inst list \<Rightarrow> (inst \<Rightarrow> bool) list \<Rightarrow> (string \<times> pyval) list \<Rightarrow> exc + inst" where
  "qs_get qs args kwargs =
     (case qs_filter qs args kwargs of
        [] \<Rightarrow> Inl DoesNotExist
      | [obj] \<Rightarrow> Inr obj
      | obj # second # others \<Rightarrow> Inl MultipleObjectsReturned)"

fun fresh_id :: "store \<Rightarrow> nat" where
  "fresh_id [] = 0"
| "fresh_id ((i, vals) # rest) = max (Suc i) (fresh_id rest)"

text \<open>\<^verbatim>\<open>self.model(**attrs)\<close>, \<^verbatim>\<open>setattr(inst, k, v)\<close>, \<^verbatim>\<open>inst.save()\<close>, \<^verbatim>\<open>inst.delete()\<close>.\<close>

definition model_init :: "(string \<times> pyval) list \<Rightarrow> inst" where
  "model_init attrs = \<lparr> row_id = None, field_values = attrs \<rparr>"

definition setattr :: "inst \<Rightarrow> string \<Rightarrow> pyval \<Rightarrow> inst" where
  "setattr obj k v = obj \<lparr> field_values := AList.update k v (field_values obj) \<rparr>"

definition inst_save :: "inst \<Rightarrow> store \<Rightarrow> inst \<times> store" where
  "inst_save obj s =
     (case row_id obj of
        None \<Rightarrow> (let i = fresh_id s in (obj \<lparr> row_id := Some i \<rparr>, s @ [(i, field_values obj)]))
      | Some i \<Rightarrow> (obj, AList.update i (field_values obj) s))"

definition inst_delete :: "inst \<Rightarrow> store \<Rightarrow> store" where
  "inst_delete obj s =
     (case row_id obj of
        None \<Rightarrow> s
      | Some i \<Rightarrow> filter (\<lambda>(j, vals). j \<noteq> i) s)"

section \<open>\<^verbatim>\<open>BaseModelResource\<close>: the default CRUD methods\<close>

text \<open>
  A CRUD method takes the request, the positional and the keyword parameters, and the
  state of the world it runs in; it returns what it returned or raised, and the world
  it left. For the methods of \<^verbatim>\<open>BaseModelResource\<close> the world is the store.
\<close>

type_synonym 'w meth =
  "request \<Rightarrow> (inst \<Rightarrow> bool) list \<Rightarrow> (string \<times> pyval) list \<Rightarrow> 'w \<Rightarrow> (exc + result) \<times> 'w"

text \<open>
  \<^verbatim>\<open>dict([(str(k), dct.get(k)) for k in dct.keys()])\<close>; the keys are strings already.
\<close>

definition flatten_dict :: "(string \<times> pyval) list \<Rightarrow> (string \<times> pyval) list" where
  "flatten_dict dct = py_dict (map (\<lambda>k. (k, dict_get dct k)) (map fst dct))"

definition queryset :: "model_resource \<Rightarrow> request \<Rightarrow> store \<Rightarrow> inst list" where
  "queryset self request s = objects_all s"

definition exists :: "model_resource \<Rightarrow> (string \<times> pyval) list \<Rightarrow> store \<Rightarrow> exc + bool" where
  "exists self kwargs s =
     (case qs_get (objects_all s) [] kwargs of
        Inr obj \<Rightarrow> Inr True
      | Inl DoesNotExist \<Rightarrow> Inr False
      | Inl e \<Rightarrow> Inl e)"

text \<open>
  \<^verbatim>\<open>.get(pk=kwargs.get(pkfield))\<close>: the keyword \<^verbatim>\<open>pk\<close> stands for the primary-key
  field, so the lookup is by the value of that field.
\<close>

definition read :: "model_resource \<Rightarrow> store meth" where
  "read self request args kwargs s =
     (let pkfield = pk_name self in
      if pkfield \<in> set (map fst kwargs) then
        (case qs_get (queryset self request s) [] [(pkfield, dict_get kwargs pkfield)] of
           Inr obj \<Rightarrow> (Inr (Instance obj), s)
         | Inl DoesNotExist \<Rightarrow> (Inr (Rc NOT_FOUND), s)
         | Inl MultipleObjectsReturned \<Rightarrow> (Inr (Rc BAD_REQUEST), s)
         | Inl e \<Rightarrow> (Inl e, s))
      else (Inr (QuerySet (qs_filter (queryset self request s) args kwargs)), s))"

definition create :: "model_resource \<Rightarrow> store meth" where
  "create self request args kwargs s =
     (let attrs = flatten_dict (data request) in
      case qs_get (queryset self request s) [] attrs of
        Inr obj \<Rightarrow> (Inr (Rc DUPLICATE_ENTRY), s)
      | Inl DoesNotExist \<Rightarrow>
          (let (obj, s') = inst_save (model_init attrs) s in (Inr (Instance obj), s'))
      | Inl MultipleObjectsReturned \<Rightarrow> (Inr (Rc DUPLICATE_ENTRY), s)
      | Inl e \<Rightarrow> (Inl e, s))"

definition update :: "model_resource \<Rightarrow> store meth" where
  "update self request args kwargs s =
     (let pkfield = pk_name self in
      if pkfield \<notin> set (map fst kwargs) then (Inr (Rc BAD_REQUEST), s)
      else
        (case qs_get (queryset self request s) [] [(pkfield, dict_get kwargs pkfield)] of
           Inl DoesNotExist \<Rightarrow> (Inr (Rc NOT_FOUND), s)
         | Inl MultipleObjectsReturned \<Rightarrow> (Inr (Rc BAD_REQUEST), s)
         | Inl e \<Rightarrow> (Inl e, s)
         | Inr obj \<Rightarrow>
             (let attrs = flatten_dict (data request);
                  obj' = fold (\<lambda>(k, v) x. setattr x k v) attrs obj
              in (Inr (Rc ALL_OK), snd (inst_save obj' s)))))"

definition delete :: "model_resource \<Rightarrow> store meth" where
  "delete self request args kwargs s =
     (case qs_get (queryset self request s) args kwargs of
        Inr obj \<Rightarrow> (Inr (Rc DELETED), inst_delete obj s)
      | Inl MultipleObjectsReturned \<Rightarrow> (Inr (Rc DUPLICATE_ENTRY), s)
      | Inl DoesNotExist \<Rightarrow> (Inr (Rc NOT_HERE), s)
      | Inl e \<Rightarrow> (Inl e, s))"

section \<open>\<^verbatim>\<open>BaseResource\<close>: \<^verbatim>\<open>get_result\<close> and \<^verbatim>\<open>dispatch\<close>\<close>

text \<open>
  The serializer is a collaborator of this module (\<^verbatim>\<open>DefaultSerializer\<close> is not
  among the sources): it is a parameter, a pair of operations that run in the world and
  can raise. \<^verbatim>\<open>serialize\<close> returns a stream and a content type, where the stream is
  content or a whole \<^verbatim>\<open>HttpResponse\<close>.
\<close>

datatype stream = Content "string list" | StreamResponse http_response

record 'w serializer =
  serializer_serialize ::
    "request \<Rightarrow> result \<Rightarrow> field list \<Rightarrow> 'w \<Rightarrow> (exc + stream \<times> string) \<times> 'w"
  serializer_deserialize :: "request \<Rightarrow> 'w \<Rightarrow> (exc + request) \<times> 'w"

text \<open>
  A resource object: \<^verbatim>\<open>self.callmap\<close>, the methods that \<^verbatim>\<open>getattr(self, name, None)\<close>
  finds, \<^verbatim>\<open>self.serializer\<close>, and the two methods a subclass overrides,
  \<^verbatim>\<open>self.get_fields\<close> and \<^verbatim>\<open>self.get_headers\<close>.
\<close>

record 'w resource =
  callmap :: "(string \<times> string) list"
  getattr :: "string \<Rightarrow> 'w meth option"
  serializer :: "'w serializer"
  get_fields_method :: "request \<Rightarrow> result \<Rightarrow> field list"
  get_headers_method :: "request \<Rightarrow> (string \<times> string) list \<Rightarrow> (string \<times> string) list"

definition serialize ::
  "'w resource \<Rightarrow> request \<Rightarrow> result \<Rightarrow> 'w \<Rightarrow> (exc + stream \<times> string) \<times> 'w" where
  "serialize self request result w =
     serializer_serialize (serializer self) request result
       (get_fields_method self request result) w"

definition deserialize :: "'w resource \<Rightarrow> request \<Rightarrow> 'w \<Rightarrow> (exc + request) \<times> 'w" where
  "deserialize self request w = serializer_deserialize (serializer self) request w"

text \<open>
  The \<^verbatim>\<open>try\<close> block of \<^verbatim>\<open>get_result\<close>: deserialize, look the method up, call it.
  \<^verbatim>\<open>self.callmap.get(rm, '')\<close> is the empty name for an unmapped verb.
\<close>

definition get_result_try ::
  "'w resource \<Rightarrow> request \<Rightarrow> (inst \<Rightarrow> bool) list \<Rightarrow> (string \<times> pyval) list \<Rightarrow> 'w
     \<Rightarrow> (exc + result) \<times> 'w" where
  "get_result_try self request args kwargs w =
     (case deserialize self request w of
        (Inl e, w') \<Rightarrow> (Inl e, w')
      | (Inr request', w') \<Rightarrow>
          (let rm = upper (method request') in
           case getattr self (case map_of (callmap self) rm of None \<Rightarrow> [] | Some name \<Rightarrow> name) of
             None \<Rightarrow> (Inl Http404, w')
           | Some meth \<Rightarrow> meth request' args kwargs w'))"

text \<open>The two \<^verbatim>\<open>except\<close> clauses of \<^verbatim>\<open>get_result\<close>; any other exception goes on.\<close>

fun get_result_except :: "exc + result \<Rightarrow> exc + result" where
  "get_result_except (Inl MimerDataException) = Inr (Rc BAD_REQUEST)"
| "get_result_except (Inl UnsupportedMediaTypeException) = Inr (Rc UNSUPPORTED_MEDIA_TYPE)"
| "get_result_except outcome = outcome"

text \<open>
  The two \<^verbatim>\<open>isinstance\<close> steps after the \<^verbatim>\<open>try\<close>, in the source's order: a
  \<^verbatim>\<open>HeadersResult\<close> is unwrapped, then an \<^verbatim>\<open>HttpResponse\<close> (an \<^verbatim>\<open>rc\<close> sentinel is
  one) gives its status and its \<^verbatim>\<open>_container\<close>.
\<close>

fun unwrap_headers_result ::
  "result \<Rightarrow> result \<times> (string \<times> string) list \<times> nat" where
  "unwrap_headers_result (HeadersResult inner http_headers status) = (inner, http_headers, status)"
| "unwrap_headers_result other = (other, [], 200)"

fun unwrap_http_response ::
  "result \<times> (string \<times> string) list \<times> nat \<Rightarrow> result \<times> (string \<times> string) list \<times> nat" where
  "unwrap_http_response (Rc s, http_headers, status) = (RcContainer s, http_headers, rc_status_code s)"
| "unwrap_http_response (Response resp, http_headers, status) =
     (Container (container resp), http_headers, status_code resp)"
| "unwrap_http_response (other, http_headers, status) = (other, http_headers, status)"

definition get_result ::
  "'w resource \<Rightarrow> request \<Rightarrow> (inst \<Rightarrow> bool) list \<Rightarrow> (string \<times> pyval) list \<Rightarrow> 'w
     \<Rightarrow> (exc + result \<times> (string \<times> string) list \<times> nat) \<times> 'w" where
  "get_result self request args kwargs w =
     (case get_result_try self request args kwargs w of
        (outcome, w') \<Rightarrow>
          (case get_result_except outcome of
             Inl e \<Rightarrow> (Inl e, w')
           | Inr result \<Rightarrow> (Inr (unwrap_http_response (unwrap_headers_result result)), w')))"

text \<open>
  Modelled from the spec: the response cache, whose class is not among the sources.
  Section 2 of the specification has it keyed by request: it returns a previously
  computed response or records a new one. \<^verbatim>\<open>self.cache\<close> is \<open>None\<close> when no cache
  is configured; a cached response is an \<^verbatim>\<open>HttpResponse\<close>, which is always truthy, so
  \<^verbatim>\<open>if response:\<close> asks whether the lookup found one.
\<close>

type_synonym response_cache = "(request \<times> http_response) list"

definition get_response :: "response_cache \<Rightarrow> request \<Rightarrow> http_response option" where
  "get_response c request = map_of c request"

definition cache_response :: "response_cache \<Rightarrow> request \<Rightarrow> http_response \<Rightarrow> response_cache" where
  "cache_response c request resp = AList.update request resp c"

text \<open>What \<^verbatim>\<open>dispatch\<close> runs in: the world of the collaborators, and the cache.\<close>

record 'w state =
  world :: 'w
  cache :: "response_cache option"

text \<open>\<^verbatim>\<open>HttpResponse(stream, content_type=ct, status=status_code)\<close> and \<^verbatim>\<open>resp[header] = value\<close>.\<close>

definition HttpResponse :: "string list \<Rightarrow> string \<Rightarrow> nat \<Rightarrow> http_response" where
  "HttpResponse content ct status =
     \<lparr> status_code = status, container = content, content_type = ct,
       headers = [(''Content-Type'', ct)] \<rparr>"

definition set_header :: "http_response \<Rightarrow> string \<Rightarrow> string \<Rightarrow> http_response" where
  "set_header resp header v = resp \<lparr> headers := AList.update header v (headers resp) \<rparr>"

definition dispatch ::
  "'w resource \<Rightarrow> request \<Rightarrow> (inst \<Rightarrow> bool) list \<Rightarrow> (string \<times> pyval) list \<Rightarrow> 'w state
     \<Rightarrow> (exc + http_response) \<times> 'w state" where
  "dispatch self request args kwargs st =
     (case (case cache st of None \<Rightarrow> None | Some c \<Rightarrow> get_response c request) of
        Some response \<Rightarrow> (Inr response, st)
      | None \<Rightarrow>
          (case get_result self request args kwargs (world st) of
             (Inl e, w1) \<Rightarrow> (Inl e, st \<lparr> world := w1 \<rparr>)
           | (Inr (result, http_headers, status), w1) \<Rightarrow>
               (case serialize self request result w1 of
                  (Inl e, w2) \<Rightarrow> (Inl e, st \<lparr> world := w2 \<rparr>)
                | (Inr (stream, ct), w2) \<Rightarrow>
                    (let resp0 = (case stream of
                                    StreamResponse r \<Rightarrow> r
                                  | Content content \<Rightarrow> HttpResponse content ct status);
                         resp = fold (\<lambda>(header, v) r. set_header r header v)
                                  (get_headers_method self request http_headers) resp0
                     in (Inr resp,
                         \<lparr> world = w2,
                           cache = map_option (\<lambda>c. cache_response c request resp) (cache st) \<rparr>)))))"

text \<open>
  \<^verbatim>\<open>BaseResource.get_headers\<close> and its override in \<^verbatim>\<open>BaseModelResource\<close>.
  \<^verbatim>\<open>Emitter.SERIALIZATION_TYPES\<close> is not among the sources: it is a parameter.
\<close>

definition get_headers ::
  "string list \<Rightarrow> request \<Rightarrow> (string \<times> string) list \<Rightarrow> (string \<times> string) list" where
  "get_headers SERIALIZATION_TYPES request http_headers =
     AList.update ''Cache-Control'' ''must-revalidate, private''
       (AList.update ''X-Serialization-Format-Options'' (join_str '','' SERIALIZATION_TYPES)
          http_headers)"

definition model_get_headers ::
  "model_resource \<Rightarrow> string list \<Rightarrow> request \<Rightarrow> (string \<times> string) list
     \<Rightarrow> (string \<times> string) list" where
  "model_get_headers self SERIALIZATION_TYPES request http_headers =
     AList.update ''X-Fields-Options'' (join_str '','' (flat_list (self_fields self)))
       (get_headers SERIALIZATION_TYPES request http_headers)"

text \<open>
  The two classes as resource objects. The CRUD methods of \<^verbatim>\<open>BaseResource\<close> raise
  \<^verbatim>\<open>NotImplementedError\<close>, and its \<^verbatim>\<open>get_fields\<close> returns the empty list.
\<close>

definition default_callmap :: "(string \<times> string) list" where
  "default_callmap =
     [(''GET'', ''read''), (''POST'', ''create''), (''PUT'', ''update''), (''DELETE'', ''delete'')]"

definition not_implemented :: "'w meth" where
  "not_implemented request args kwargs w = (Inl NotImplementedError, w)"

definition BaseResource :: "'w serializer \<Rightarrow> string list \<Rightarrow> 'w resource" where
  "BaseResource ser SERIALIZATION_TYPES =
     \<lparr> callmap = default_callmap,
       getattr = map_of [(''read'', not_implemented), (''create'', not_implemented),
                         (''update'', not_implemented), (''delete'', not_implemented)],
       serializer = ser,
       get_fields_method = (\<lambda>request result. []),
       get_headers_method = get_headers SERIALIZATION_TYPES \<rparr>"

definition BaseModelResource ::
  "model_resource \<Rightarrow> store serializer \<Rightarrow> string list \<Rightarrow> store resource" where
  "BaseModelResource self ser SERIALIZATION_TYPES =
     \<lparr> callmap = default_callmap,
       getattr = map_of [(''read'', read self), (''create'', create self),
                         (''update'', update self), (''delete'', delete self)],
       serializer = ser,
       get_fields_method = get_fields self,
       get_headers_method = model_get_headers self SERIALIZATION_TYPES \<rparr>"

section \<open>Properties of the permission model\<close>

lemma collect_validators_ok:
  "set ms \<subseteq> fst ` set table \<Longrightarrow>
   \<exists>d. collect_validators table ms acc = Inr d
      \<and> map_of d = (\<lambda>k. if k \<in> set ms then map_of table k else map_of acc k)
      \<and> fst ` set d = fst ` set acc \<union> set ms
      \<and> (distinct (map fst acc) \<longrightarrow> distinct (map fst d))"
proof (induction ms arbitrary: acc)
  case Nil
  then show ?case by simp
next
  case (Cons m ms)
  from Cons.prems obtain v where v: "map_of table m = Some v"
    by (cases "map_of table m") (auto simp: map_of_eq_None_iff)
  from Cons.prems have sub: "set ms \<subseteq> fst ` set table" by simp
  from Cons.IH [OF sub, of "AList.update m v acc"]
  obtain d where d: "collect_validators table ms (AList.update m v acc) = Inr d"
      "map_of d = (\<lambda>k. if k \<in> set ms then map_of table k else map_of (AList.update m v acc) k)"
      "fst ` set d = fst ` set (AList.update m v acc) \<union> set ms"
      "distinct (map fst (AList.update m v acc)) \<longrightarrow> distinct (map fst d)"
    by blast
  have "collect_validators table (m # ms) acc = Inr d"
    using v d(1) by simp
  moreover have "map_of d = (\<lambda>k. if k \<in> set (m # ms) then map_of table k else map_of acc k)"
    using d(2) v by (auto simp: fun_eq_iff update_conv')
  moreover have "fst ` set d = fst ` set acc \<union> set (m # ms)"
    using d(3) by (auto simp: dom_update)
  moreover have "distinct (map fst acc) \<longrightarrow> distinct (map fst d)"
    using d(4) by (simp add: distinct_update)
  ultimately show ?case by blast
qed

lemma collect_validators_KeyError:
  "\<not> set ms \<subseteq> fst ` set table \<Longrightarrow> collect_validators table ms acc = Inl KeyError"
proof (induction ms arbitrary: acc)
  case Nil
  then show ?case by simp
next
  case (Cons m ms)
  show ?case
  proof (cases "map_of table m")
    case None
    then show ?thesis by simp
  next
    case (Some v)
    then have "m \<in> fst ` set table"
      by (metis map_of_eq_None_iff option.distinct(1))
    with Cons.prems have "\<not> set ms \<subseteq> fst ` set table" by simp
    from Cons.IH [OF this] Some show ?thesis by simp
  qed
qed

lemma all_permissions_validators_keys:
  "fst ` set (all_permissions_validators cls) = {''GET'', ''POST'', ''PUT'', ''DELETE''}"
  by (auto simp: all_permissions_validators_def)

lemma set_update_subset: "set (AList.update k v al) \<subseteq> insert (k, v) (set al)"
  by (induction al) auto

lemma collect_validators_values:
  "collect_validators table ms acc = Inr d \<Longrightarrow> \<forall>v \<in> snd ` set acc. P v \<Longrightarrow>
   \<forall>v \<in> snd ` set table. P v \<Longrightarrow> \<forall>v \<in> snd ` set d. P v"
proof (induction ms arbitrary: acc)
  case Nil
  then show ?case by simp
next
  case (Cons m ms)
  from Cons.prems(1) obtain v where v: "map_of table m = Some v"
    and rest: "collect_validators table ms (AList.update m v acc) = Inr d"
    by (auto split: option.splits)
  from v have "(m, v) \<in> set table" by (rule map_of_SomeD)
  with Cons.prems(3) have "P v" by force
  with Cons.prems(2) set_update_subset [of m v acc]
  have "\<forall>w \<in> snd ` set (AList.update m v acc). P w" by fastforce
  from Cons.IH [OF rest this Cons.prems(3)] show ?case .
qed

lemma default_validators_constant:
  "\<forall>v \<in> snd ` set (all_permissions_validators (PermissionsResource ms)).
     v request obj None = v request' obj' None"
  by (simp add: all_permissions_validators_def PermissionsResource_def)

text \<open>
  Claim C5, as the code has it. Whenever every verb the loop runs over (the allowed
  verbs, cut down by the restriction set when one is given and is not empty) is one of
  GET, POST, PUT and DELETE, \<open>get_permission_validators\<close> raises nothing and returns a
  mapping with distinct keys whose key set is the intersection of the allowed verbs, the
  restriction set and the four known verbs, each key mapped to the class's validator
  for it. An empty restriction set restricts nothing, like an absent one. A verb
  outside the four that only the restriction set names is never looked up.
\<close>

theorem get_permission_validators_known_verbs:
  assumes "effective_methods cls r \<subseteq> {''GET'', ''POST'', ''PUT'', ''DELETE''}"
  shows "\<exists>d. get_permission_validators cls r = Inr d
       \<and> distinct (map fst d)
       \<and> fst ` set d = effective_methods cls r \<inter> {''GET'', ''POST'', ''PUT'', ''DELETE''}
       \<and> map_of d ''GET'' =
           (if ''GET'' \<in> effective_methods cls r then Some (has_read_permission cls) else None)
       \<and> map_of d ''POST'' =
           (if ''POST'' \<in> effective_methods cls r then Some (has_create_permission cls) else None)
       \<and> map_of d ''PUT'' =
           (if ''PUT'' \<in> effective_methods cls r then Some (has_update_permission cls) else None)
       \<and> map_of d ''DELETE'' =
           (if ''DELETE'' \<in> effective_methods cls r then Some (has_delete_permission cls) else None)"
proof -
  define ms where "ms = (if truthy r then py_set_inter (the r) (allowed_methods cls)
                         else py_set (allowed_methods cls))"
  have ms: "set ms = effective_methods cls r"
    by (auto simp: ms_def effective_methods_def py_set_inter_def py_set_def)
  have sub: "set ms \<subseteq> fst ` set (all_permissions_validators cls)"
    using assms ms by (simp add: all_permissions_validators_keys)
  from collect_validators_ok [OF sub, of "[]"]
  obtain d where d: "collect_validators (all_permissions_validators cls) ms [] = Inr d"
    "map_of d = (\<lambda>k. if k \<in> set ms then map_of (all_permissions_validators cls) k
                      else map_of [] k)"
    "fst ` set d = fst ` set [] \<union> set ms" "distinct (map fst d)"
    by auto
  have "get_permission_validators cls r = Inr d"
    using d(1) by (simp add: get_permission_validators_def ms_def Let_def)
  moreover have "fst ` set d = effective_methods cls r \<inter> {''GET'', ''POST'', ''PUT'', ''DELETE''}"
    using d(3) ms assms by auto
  moreover have
    "map_of d ''GET'' =
       (if ''GET'' \<in> effective_methods cls r then Some (has_read_permission cls) else None)"
    "map_of d ''POST'' =
       (if ''POST'' \<in> effective_methods cls r then Some (has_create_permission cls) else None)"
    "map_of d ''PUT'' =
       (if ''PUT'' \<in> effective_methods cls r then Some (has_update_permission cls) else None)"
    "map_of d ''DELETE'' =
       (if ''DELETE'' \<in> effective_methods cls r then Some (has_delete_permission cls) else None)"
    by (simp_all add: d(2) ms all_permissions_validators_def)
  ultimately show ?thesis using d(4) by blast
qed

theorem get_permission_validators_known_verbs_witness:
  "effective_methods (PermissionsResource [''GET'', ''POST''] :: (unit, unit, unit) permissions_resource)
       (Some [''GET'', ''PATCH''])
     \<subseteq> {''GET'', ''POST'', ''PUT'', ''DELETE''}
   \<and> (\<exists>d. get_permission_validators
            (PermissionsResource [''GET'', ''POST''] :: (unit, unit, unit) permissions_resource)
            (Some [''GET'', ''PATCH'']) = Inr d
          \<and> distinct (map fst d) \<and> fst ` set d = {''GET''}
          \<and> map_of d ''POST'' = None)"
proof -
  let ?cls = "PermissionsResource [''GET'', ''POST''] :: (unit, unit, unit) permissions_resource"
  let ?r = "Some [''GET'', ''PATCH'']"
  have e: "effective_methods ?cls ?r = {''GET''}"
    by (auto simp: effective_methods_def PermissionsResource_def)
  have h: "effective_methods ?cls ?r \<subseteq> {''GET'', ''POST'', ''PUT'', ''DELETE''}"
    by (simp add: e)
  from get_permission_validators_known_verbs [OF h] h show ?thesis
    by (auto simp: e)
qed

text \<open>
  Claim C5 as stated fails twice. A class that allows a verb outside the four known
  ones makes the lookup in \<open>all_permissions_validators\<close> raise \<open>KeyError\<close>; and an
  empty restriction set, although given, restricts nothing: the mapping still has the
  key GET, where the intersection with the empty set has none.
\<close>

theorem get_permission_validators_counterexample:
  "get_permission_validators
      (PermissionsResource [''GET'', ''HEAD''] :: (unit, unit, unit) permissions_resource) None
     = Inl KeyError
   \<and> map_sum id (map fst)
       (get_permission_validators
          (PermissionsResource [''GET''] :: (unit, unit, unit) permissions_resource) (Some []))
     = Inr [''GET'']"
  by (simp add: get_permission_validators_def PermissionsResource_def py_set_def
      all_permissions_validators_def)

text \<open>
  Claim C10. The default validators ignore the request, the object and the access path:
  each returns whether its verb is among the class's \<open>allowed_methods\<close>, the same for
  any two triples; and \<open>get_allowed_methods\<close> of the default class returns the same
  outcome for any two pairs of a caller and an object.
\<close>

theorem default_validators_ignore_caller:
  fixes ms :: "string list"
    and request request' :: 'rq and obj obj' :: "'ob option" and via via' :: "'vi option"
  defines "cls \<equiv> PermissionsResource ms :: ('rq, 'ob, 'vi) permissions_resource"
  shows "has_read_permission cls request obj via = (''GET'' \<in> set (allowed_methods cls))
       \<and> has_create_permission cls request obj via = (''POST'' \<in> set (allowed_methods cls))
       \<and> has_update_permission cls request obj via = (''PUT'' \<in> set (allowed_methods cls))
       \<and> has_delete_permission cls request obj via = (''DELETE'' \<in> set (allowed_methods cls))
       \<and> has_read_permission cls request obj via = has_read_permission cls request' obj' via'
       \<and> has_create_permission cls request obj via = has_create_permission cls request' obj' via'
       \<and> has_update_permission cls request obj via = has_update_permission cls request' obj' via'
       \<and> has_delete_permission cls request obj via = has_delete_permission cls request' obj' via'
       \<and> get_allowed_methods cls request obj r = get_allowed_methods cls request' obj' r"
proof -
  have "get_allowed_methods cls request obj r = get_allowed_methods cls request' obj' r"
  proof (cases "get_permission_validators cls r")
    case (Inl e)
    then show ?thesis by (simp add: get_allowed_methods_def)
  next
    case (Inr d)
    then have "\<forall>v \<in> snd ` set d. v request obj None = v request' obj' None"
      unfolding get_permission_validators_def Let_def cls_def
      by (rule collect_validators_values) (simp_all add: default_validators_constant)
    then have "filter (\<lambda>(method, validator). validator request obj None) d
             = filter (\<lambda>(method, validator). validator request' obj' None) d"
      by (intro filter_cong) auto
    with Inr show ?thesis by (simp add: get_allowed_methods_def)
  qed
  then show ?thesis by (simp add: PermissionsResource_def cls_def)
qed

theorem default_validators_ignore_caller_witness:
  "has_delete_permission (PermissionsResource [''GET'', ''PUT''] :: (string, nat, string) permissions_resource)
      ''alice'' (Some 1) None = False
   \<and> get_allowed_methods (PermissionsResource [''GET'', ''PUT''] :: (string, nat, string) permissions_resource)
       ''alice'' (Some 1) None
     = get_allowed_methods (PermissionsResource [''GET'', ''PUT''] :: (string, nat, string) permissions_resource)
         ''bob'' None None"
  using default_validators_ignore_caller [of "[''GET'', ''PUT'']" "''alice''" "Some (1::nat)" "None :: string option"
      "''bob''" "None" "None" "None"]
  by (simp add: PermissionsResource_def)

section \<open>Properties of field selection\<close>

lemma select_fields_map_of:
  "map_of (select_fields names allowed sel) = map_of sel ++ (map_of allowed |` set names)"
proof (induction names arbitrary: sel)
  case Nil
  then show ?case by simp
next
  case (Cons f rest)
  show ?case
  proof (cases "map_of allowed f")
    case None
    then have "map_of allowed |` set (f # rest) = map_of allowed |` set rest"
      by (auto simp: fun_eq_iff restrict_map_def)
    with None Cons.IH show ?thesis by simp
  next
    case (Some sub)
    have "map_of (AList.update f sub sel) ++ (map_of allowed |` set rest)
        = map_of sel ++ (map_of allowed |` set (f # rest))"
      using Some by (auto simp: fun_eq_iff update_conv' map_add_def restrict_map_def split: option.splits)
    with Some Cons.IH show ?thesis by simp
  qed
qed

lemma select_fields_keys:
  "fst ` set (select_fields names allowed sel) = fst ` set sel \<union> (set names \<inter> fst ` set allowed)"
proof -
  have "dom (map_of (select_fields names allowed sel)) = dom (map_of sel) \<union> (set names \<inter> dom (map_of allowed))"
    by (auto simp: select_fields_map_of)
  then show ?thesis by (simp add: dom_map_of_conv_image_fst)
qed

lemma select_fields_distinct:
  "distinct (map fst sel) \<Longrightarrow> distinct (map fst (select_fields names allowed sel))"
  by (induction names arbitrary: sel) (auto simp: distinct_update split: option.splits)

lemma list_to_dict_into_distinct:
  "distinct (map fst acc) \<Longrightarrow> distinct (map fst (list_to_dict_into xs acc))"
  by (induction xs acc rule: list_to_dict_into.induct) (auto simp: distinct_update)

lemma list_to_dict_into_keys:
  "fst ` set (list_to_dict_into xs acc) = fst ` set acc \<union> field_name ` set xs"
  by (induction xs acc rule: list_to_dict_into.induct) (auto simp: dom_update)

lemma dict_to_list_names: "map field_name (dict_to_list d) = map fst d"
  by (induction d rule: dict_to_list.induct) auto

text \<open>
  Claim C1, as the code has it. Write \<open>named\<close> for the names the explicit-fields
  header gives when split at commas and \<open>extra\<close> for those of the extra-fields header.
  If \<open>named\<close> meets the allowed-field mapping, \<open>get_fields\<close> returns exactly the
  named and allowed fields, each with its allowed sub-mapping, whatever the defaults
  and the extra-fields header are. If it does not, \<open>get_fields\<close> returns the defaults
  (the collection variant for a \<open>QuerySet\<close>, the object variant otherwise) with every
  allowed field of \<open>extra\<close> merged in. Names outside the allowed mapping are dropped
  from both headers; the function is total. An absent header is read as the empty
  string, which names the empty field name and nothing else.
\<close>

theorem get_fields_selection:
  fixes self :: model_resource and request :: request and result :: result
  defines "allowed \<equiv> list_to_dict (self_fields self)"
    and "named \<equiv> set (split_str CHR '','' (meta_get request ''HTTP_X_FIELDS''))"
    and "extra \<equiv> set (split_str CHR '','' (meta_get request ''HTTP_X_EXTRA_FIELDS''))"
    and "defaults \<equiv> list_to_dict (if is_QuerySet result then default_list_fields self
                                    else default_obj_fields self)"
  shows "(named \<inter> fst ` set allowed \<noteq> {} \<longrightarrow>
           (\<exists>d. get_fields self request result = dict_to_list d
              \<and> distinct (map fst d)
              \<and> map_of d = map_of allowed |` named)
           \<and> field_name ` set (get_fields self request result) = named \<inter> fst ` set allowed)
       \<and> (named \<inter> fst ` set allowed = {} \<longrightarrow>
           (\<exists>d. get_fields self request result = dict_to_list d
              \<and> distinct (map fst d)
              \<and> map_of d = map_of defaults ++ (map_of allowed |` extra))
           \<and> field_name ` set (get_fields self request result)
               = fst ` set defaults \<union> (extra \<inter> fst ` set allowed))
       \<and> (map_of (META request) ''HTTP_X_FIELDS'' = None \<longrightarrow> named = {''''})"
proof -
  define explicit where
    "explicit = select_fields (split_str CHR '','' (meta_get request ''HTTP_X_FIELDS'')) allowed []"
  define merged where
    "merged = select_fields (split_str CHR '','' (meta_get request ''HTTP_X_EXTRA_FIELDS'')) allowed defaults"
  have keys_explicit: "fst ` set explicit = named \<inter> fst ` set allowed"
    by (simp add: explicit_def named_def select_fields_keys)
  have empty_iff: "explicit = [] \<longleftrightarrow> named \<inter> fst ` set allowed = {}"
    using keys_explicit by (cases explicit) auto
  have gf: "get_fields self request result = (if explicit \<noteq> [] then dict_to_list explicit else dict_to_list merged)"
    by (simp add: get_fields_def Let_def explicit_def merged_def allowed_def defaults_def)
  have names: "field_name ` set (dict_to_list d) = fst ` set d" for d
    using dict_to_list_names [of d] by (metis set_map)
  have a: "distinct (map fst explicit)" "map_of explicit = map_of allowed |` named"
    by (simp_all add: explicit_def named_def select_fields_distinct select_fields_map_of)
  have "distinct (map fst defaults)"
    by (simp add: defaults_def list_to_dict_def list_to_dict_into_distinct)
  then have b: "distinct (map fst merged)" "map_of merged = map_of defaults ++ (map_of allowed |` extra)"
    "fst ` set merged = fst ` set defaults \<union> (extra \<inter> fst ` set allowed)"
    by (simp_all add: merged_def extra_def select_fields_distinct select_fields_map_of select_fields_keys)
  have 1: "named \<inter> fst ` set allowed \<noteq> {} \<longrightarrow>
           (\<exists>d. get_fields self request result = dict_to_list d
              \<and> distinct (map fst d)
              \<and> map_of d = map_of allowed |` named)
           \<and> field_name ` set (get_fields self request result) = named \<inter> fst ` set allowed"
    using gf empty_iff a keys_explicit names by auto
  have 2: "named \<inter> fst ` set allowed = {} \<longrightarrow>
           (\<exists>d. get_fields self request result = dict_to_list d
              \<and> distinct (map fst d)
              \<and> map_of d = map_of defaults ++ (map_of allowed |` extra))
           \<and> field_name ` set (get_fields self request result)
               = fst ` set defaults \<union> (extra \<inter> fst ` set allowed)"
    using gf empty_iff b names by auto
  have 3: "map_of (META request) ''HTTP_X_FIELDS'' = None \<longrightarrow> named = {''''}"
    by (simp add: named_def meta_get_def)
  from 1 2 3 show ?thesis by blast
qed

theorem get_fields_selection_witness:
  "set (split_str CHR '','' (meta_get \<lparr> method = ''GET'', META = [(''HTTP_X_FIELDS'', ''a,z'')], data = [] \<rparr> ''HTTP_X_FIELDS''))
     \<inter> fst ` set (list_to_dict [Name ''a'', Nested ''b'' [Name ''x''], Name ''c'']) \<noteq> {}
   \<and> field_name ` set (get_fields
         \<lparr> self_fields = [Name ''a'', Nested ''b'' [Name ''x''], Name ''c''],
           default_obj_fields = [Name ''id''], default_list_fields = [Name ''id'', Name ''_obj_name''],
           pk_name = ''id'' \<rparr>
         \<lparr> method = ''GET'', META = [(''HTTP_X_FIELDS'', ''a,z'')], data = [] \<rparr>
         (QuerySet [])) = {''a''}
   \<and> set (split_str CHR '','' (meta_get \<lparr> method = ''GET'', META = [(''HTTP_X_EXTRA_FIELDS'', ''b,q'')], data = [] \<rparr> ''HTTP_X_FIELDS''))
     \<inter> fst ` set (list_to_dict [Name ''a'', Nested ''b'' [Name ''x''], Name ''c'']) = {}
   \<and> field_name ` set (get_fields
         \<lparr> self_fields = [Name ''a'', Nested ''b'' [Name ''x''], Name ''c''],
           default_obj_fields = [Name ''id''], default_list_fields = [Name ''id'', Name ''_obj_name''],
           pk_name = ''id'' \<rparr>
         \<lparr> method = ''GET'', META = [(''HTTP_X_EXTRA_FIELDS'', ''b,q'')], data = [] \<rparr>
         (Instance \<lparr> row_id = None, field_values = [] \<rparr>)) = {''id'', ''b''}"
proof -
  let ?self = "\<lparr> self_fields = [Name ''a'', Nested ''b'' [Name ''x''], Name ''c''],
           default_obj_fields = [Name ''id''], default_list_fields = [Name ''id'', Name ''_obj_name''],
           pk_name = ''id'' \<rparr>"
  let ?r1 = "\<lparr> method = ''GET'', META = [(''HTTP_X_FIELDS'', ''a,z'')], data = [] \<rparr>"
  let ?r2 = "\<lparr> method = ''GET'', META = [(''HTTP_X_EXTRA_FIELDS'', ''b,q'')], data = [] \<rparr>"
  have keys: "fst ` set (list_to_dict [Name ''a'', Nested ''b'' [Name ''x''], Name ''c'']) = {''a'', ''b'', ''c''}"
    by (simp add: list_to_dict_def insert_commute)
  have n1: "set (split_str CHR '','' (meta_get ?r1 ''HTTP_X_FIELDS'')) = {''a'', ''z''}"
    by (simp add: meta_get_def)
  have n2: "set (split_str CHR '','' (meta_get ?r2 ''HTTP_X_FIELDS'')) = {''''}"
    by (simp add: meta_get_def)
  have e2: "set (split_str CHR '','' (meta_get ?r2 ''HTTP_X_EXTRA_FIELDS'')) = {''b'', ''q''}"
    by (simp add: meta_get_def)
  have h1: "set (split_str CHR '','' (meta_get ?r1 ''HTTP_X_FIELDS''))
              \<inter> fst ` set (list_to_dict (self_fields ?self)) \<noteq> {}"
    by (simp add: n1 keys)
  have h2: "set (split_str CHR '','' (meta_get ?r2 ''HTTP_X_FIELDS''))
              \<inter> fst ` set (list_to_dict (self_fields ?self)) = {}"
    by (simp add: n2 keys)
  from get_fields_selection [of ?r1 ?self "QuerySet []"] h1
  have "field_name ` set (get_fields ?self ?r1 (QuerySet []))
          = {''a'', ''z''} \<inter> {''a'', ''b'', ''c''}"
    by (auto simp: n1 keys)
  then have c1: "field_name ` set (get_fields ?self ?r1 (QuerySet [])) = {''a''}"
    by auto
  from get_fields_selection [of ?r2 ?self "Instance \<lparr> row_id = None, field_values = [] \<rparr>"] h2
  have "field_name ` set (get_fields ?self ?r2 (Instance \<lparr> row_id = None, field_values = [] \<rparr>))
          = fst ` set (list_to_dict [Name ''id'']) \<union> ({''b'', ''q''} \<inter> {''a'', ''b'', ''c''})"
    by (auto simp: keys e2)
  then have c2: "field_name ` set (get_fields ?self ?r2 (Instance \<lparr> row_id = None, field_values = [] \<rparr>))
          = {''id'', ''b''}"
    by (auto simp: list_to_dict_def)
  from h1 h2 c1 c2 show ?thesis by simp
qed

text \<open>
  Claim C1 as stated fails twice. For an absent explicit-fields header when the empty
  name is an allowed field: the header is read as the empty string, whose split names
  the empty field, so the explicit branch returns that field and not the defaults. And
  for a collection that is not a \<open>QuerySet\<close>: a plain list of records gets the
  object-variant defaults, not the collection-variant ones.
\<close>

theorem get_fields_counterexample:
  "map_of (META \<lparr> method = ''GET'', META = [], data = [] \<rparr>) ''HTTP_X_FIELDS'' = None
   \<and> get_fields
       \<lparr> self_fields = [Name ''''], default_obj_fields = [Name ''id''],
         default_list_fields = [Name ''id''], pk_name = ''id'' \<rparr>
       \<lparr> method = ''GET'', META = [], data = [] \<rparr>
       (Instance \<lparr> row_id = None, field_values = [] \<rparr>) = [Name '''']
   \<and> dict_to_list (list_to_dict [Name ''id'']) = [Name ''id'']
   \<and> get_fields
       \<lparr> self_fields = [Name ''id'', Name ''name''], default_obj_fields = [Name ''id''],
         default_list_fields = [Name ''name''], pk_name = ''id'' \<rparr>
       \<lparr> method = ''GET'', META = [], data = [] \<rparr>
       (Sequence [\<lparr> row_id = Some 0, field_values = [(''id'', PyInt 1)] \<rparr>,
                  \<lparr> row_id = Some 1, field_values = [(''id'', PyInt 2)] \<rparr>]) = [Name ''id'']
   \<and> dict_to_list (list_to_dict [Name ''name'']) = [Name ''name'']"
  by (simp add: get_fields_def list_to_dict_def meta_get_def)

section \<open>Properties of the default CRUD methods\<close>

lemma qs_get_none: "qs_filter qs args kwargs = [] \<Longrightarrow> qs_get qs args kwargs = Inl DoesNotExist"
  by (simp add: qs_get_def)

lemma qs_get_one: "qs_filter qs args kwargs = [obj] \<Longrightarrow> qs_get qs args kwargs = Inr obj"
  by (simp add: qs_get_def)

lemma qs_get_many:
  "2 \<le> length (qs_filter qs args kwargs) \<Longrightarrow> qs_get qs args kwargs = Inl MultipleObjectsReturned"
  by (auto simp: qs_get_def split: list.splits)

lemma objects_all_row_id:
  "obj \<in> set (objects_all s) \<Longrightarrow> \<exists>i. row_id obj = Some i \<and> (i, field_values obj) \<in> set s"
  by (auto simp: objects_all_def)

lemma qs_filter_row_id:
  "qs_filter (objects_all s) args kwargs = [obj] \<Longrightarrow>
   \<exists>i. row_id obj = Some i \<and> (i, field_values obj) \<in> set s"
proof -
  assume "qs_filter (objects_all s) args kwargs = [obj]"
  then have "obj \<in> set (filter (matches args kwargs) (objects_all s))"
    by (simp add: qs_filter_def)
  then show ?thesis by (auto dest: objects_all_row_id)
qed

lemma fold_update_distinct:
  "distinct (map fst acc) \<Longrightarrow> distinct (map fst (fold (\<lambda>(k, v) d. AList.update k v d) pairs acc))"
  by (induction pairs arbitrary: acc) (auto simp: distinct_update)

lemma fold_update_map_of:
  "map_of (fold (\<lambda>(k, v) d. AList.update k v d) pairs acc) = map_of acc ++ map_of (rev pairs)"
  by (induction pairs arbitrary: acc) (auto simp: update_conv' fun_eq_iff map_add_def split: option.splits)

lemma flatten_dict_distinct: "distinct (map fst (flatten_dict dct))"
  by (simp add: flatten_dict_def py_dict_def fold_update_distinct)

lemma flatten_dict_map_of: "map_of (flatten_dict dct) = map_of dct"
proof
  fix k
  let ?pairs = "map (\<lambda>k. (k, dict_get dct k)) (map fst dct)"
  have "rev ?pairs = map (\<lambda>k. (k, dict_get dct k)) (rev (map fst dct))"
    by (simp only: rev_map)
  then have "map_of (rev ?pairs) = (Some \<circ> dict_get dct) |` set (rev (map fst dct))"
    by (simp only: map_of_map_restrict)
  then have r: "map_of (rev ?pairs) k = (if k \<in> fst ` set dct then Some (dict_get dct k) else None)"
    by (simp add: restrict_map_def)
  have "map_of (rev ?pairs) k = map_of dct k"
  proof (cases "map_of dct k")
    case None
    then have "k \<notin> fst ` set dct" by (simp add: map_of_eq_None_iff)
    with r None show ?thesis by simp
  next
    case (Some v)
    then have "k \<in> fst ` set dct" by (metis map_of_eq_None_iff option.distinct(1))
    with r Some show ?thesis by (simp add: dict_get_def)
  qed
  then show "map_of (flatten_dict dct) k = map_of dct k"
    by (simp add: flatten_dict_def py_dict_def fold_update_map_of)
qed

lemma matches_own_values:
  "distinct (map fst attrs) \<Longrightarrow> matches [] attrs \<lparr> row_id = r, field_values = attrs \<rparr>"
  by (auto simp: matches_def list_all_iff)

lemma objects_all_append: "objects_all (s @ t) = objects_all s @ objects_all t"
  by (simp add: objects_all_def)

lemma map_of_rev_distinct: "distinct (map fst xs) \<Longrightarrow> map_of (rev xs) = map_of xs"
proof -
  assume d: "distinct (map fst xs)"
  then have "distinct (map fst (rev xs))" by (simp add: rev_map [symmetric])
  with d show ?thesis by (simp add: map_of_inject_set)
qed

lemma fold_setattr:
  "fold (\<lambda>(k, v) x. setattr x k v) attrs obj =
     obj \<lparr> field_values := fold (\<lambda>(k, v) d. AList.update k v d) attrs (field_values obj) \<rparr>"
  by (induction attrs arbitrary: obj) (auto simp: setattr_def)

lemma exists_outcome:
  "exists self kwargs s =
     (case qs_filter (objects_all s) [] kwargs of
        [] \<Rightarrow> Inr False
      | [obj] \<Rightarrow> Inr True
      | obj # second # others \<Rightarrow> Inl MultipleObjectsReturned)"
  by (simp add: exists_def qs_get_def split: list.splits)

text \<open>
  Claim C3 against the code. \<open>exists\<close> catches \<open>DoesNotExist\<close> only: with two
  records matching the criteria the lookup raises \<open>MultipleObjectsReturned\<close>, and
  that exception leaves \<open>exists\<close> where the claim has it return true.
\<close>

theorem exists_multiple_raises:
  "exists \<lparr> self_fields = [Name ''id'', Name ''name''], default_obj_fields = [Name ''id''],
            default_list_fields = [Name ''id''], pk_name = ''id'' \<rparr>
     [(''name'', PyStr ''a'')]
     [(0, [(''id'', PyInt 1), (''name'', PyStr ''a'')]),
      (1, [(''id'', PyInt 2), (''name'', PyStr ''a'')])]
   = Inl MultipleObjectsReturned"
  by (simp add: exists_def qs_get_def qs_filter_def objects_all_def matches_def)

text \<open>
  Claim C6. \<open>create\<close> flattens the body into field/value pairs (the same mapping,
  with distinct keys). If one record matches those values, or several do, it returns
  \<open>DUPLICATE_ENTRY\<close> and leaves the store as it was. If none matches, it persists
  one new record with exactly those values and returns it; a second identical call
  then returns \<open>DUPLICATE_ENTRY\<close> and persists nothing more.
\<close>

theorem create_duplicate_check:
  fixes self :: model_resource and request :: request
    and args :: "(inst \<Rightarrow> bool) list" and kwargs :: "(string \<times> pyval) list" and s :: store
  defines "attrs \<equiv> flatten_dict (data request)"
    and "found \<equiv> qs_filter (objects_all s) [] (flatten_dict (data request))"
    and "s' \<equiv> s @ [(fresh_id s, flatten_dict (data request))]"
  shows "map_of attrs = map_of (data request) \<and> distinct (map fst attrs)
       \<and> (length found = 1 \<longrightarrow> create self request args kwargs s = (Inr (Rc DUPLICATE_ENTRY), s))
       \<and> (2 \<le> length found \<longrightarrow> create self request args kwargs s = (Inr (Rc DUPLICATE_ENTRY), s))
       \<and> (found = [] \<longrightarrow>
            create self request args kwargs s
              = (Inr (Instance \<lparr> row_id = Some (fresh_id s), field_values = attrs \<rparr>), s')
          \<and> length s' = length s + 1
          \<and> create self request args kwargs s' = (Inr (Rc DUPLICATE_ENTRY), s'))"
proof -
  have one: "length found = 1 \<longrightarrow> create self request args kwargs s = (Inr (Rc DUPLICATE_ENTRY), s)"
  proof
    assume "length found = 1"
    then obtain obj where "found = [obj]" by (cases found) auto
    then have "qs_get (objects_all s) [] (flatten_dict (data request)) = Inr obj"
      unfolding found_def by (rule qs_get_one)
    then show "create self request args kwargs s = (Inr (Rc DUPLICATE_ENTRY), s)"
      by (simp add: create_def queryset_def Let_def)
  qed
  have many: "2 \<le> length found \<longrightarrow> create self request args kwargs s = (Inr (Rc DUPLICATE_ENTRY), s)"
  proof
    assume "2 \<le> length found"
    then have "qs_get (objects_all s) [] (flatten_dict (data request)) = Inl MultipleObjectsReturned"
      unfolding found_def by (rule qs_get_many)
    then show "create self request args kwargs s = (Inr (Rc DUPLICATE_ENTRY), s)"
      by (simp add: create_def queryset_def Let_def)
  qed
  have none: "found = [] \<longrightarrow>
            create self request args kwargs s
              = (Inr (Instance \<lparr> row_id = Some (fresh_id s), field_values = attrs \<rparr>), s')
          \<and> length s' = length s + 1
          \<and> create self request args kwargs s' = (Inr (Rc DUPLICATE_ENTRY), s')"
  proof
    assume empty: "found = []"
    then have "qs_get (objects_all s) [] (flatten_dict (data request)) = Inl DoesNotExist"
      unfolding found_def by (rule qs_get_none)
    then have first: "create self request args kwargs s
              = (Inr (Instance \<lparr> row_id = Some (fresh_id s), field_values = attrs \<rparr>), s')"
      by (simp add: create_def queryset_def inst_save_def model_init_def attrs_def s'_def Let_def)
    let ?new = "\<lparr> row_id = Some (fresh_id s), field_values = attrs \<rparr>"
    have "matches [] attrs ?new"
      unfolding attrs_def by (rule matches_own_values) (rule flatten_dict_distinct)
    with empty have "qs_filter (objects_all s') [] (flatten_dict (data request)) = [?new]"
      by (simp add: s'_def objects_all_append found_def qs_filter_def objects_all_def attrs_def)
    then have "qs_get (objects_all s') [] (flatten_dict (data request)) = Inr ?new"
      by (rule qs_get_one)
    then have second: "create self request args kwargs s' = (Inr (Rc DUPLICATE_ENTRY), s')"
      by (simp add: create_def queryset_def Let_def)
    from first second show "create self request args kwargs s
              = (Inr (Instance \<lparr> row_id = Some (fresh_id s), field_values = attrs \<rparr>), s')
          \<and> length s' = length s + 1
          \<and> create self request args kwargs s' = (Inr (Rc DUPLICATE_ENTRY), s')"
      by (simp add: s'_def)
  qed
  have "map_of attrs = map_of (data request)" "distinct (map fst attrs)"
    by (simp_all add: attrs_def flatten_dict_map_of flatten_dict_distinct)
  with one many none show ?thesis by blast
qed

text \<open>
  Claim C7. Without the primary-key field among the keyword parameters \<open>update\<close>
  returns \<open>BAD_REQUEST\<close> and the store is unchanged; with a key that matches no
  record it returns \<open>NOT_FOUND\<close>; with an ambiguous key \<open>BAD_REQUEST\<close>; with a
  unique match it overrides the record's values with every pair of the body, stores
  them under the record's identity, and returns \<open>ALL_OK\<close>, not the record.
\<close>

theorem update_outcomes:
  fixes self :: model_resource and request :: request
    and args :: "(inst \<Rightarrow> bool) list" and kwargs :: "(string \<times> pyval) list" and s :: store
  defines "pkfield \<equiv> pk_name self"
    and "found \<equiv> qs_filter (objects_all s) [] [(pk_name self, dict_get kwargs (pk_name self))]"
  shows "(pkfield \<notin> fst ` set kwargs \<longrightarrow>
            update self request args kwargs s = (Inr (Rc BAD_REQUEST), s))
       \<and> (pkfield \<in> fst ` set kwargs \<and> found = [] \<longrightarrow>
            update self request args kwargs s = (Inr (Rc NOT_FOUND), s))
       \<and> (pkfield \<in> fst ` set kwargs \<and> 2 \<le> length found \<longrightarrow>
            update self request args kwargs s = (Inr (Rc BAD_REQUEST), s))
       \<and> (\<forall>obj. pkfield \<in> fst ` set kwargs \<and> found = [obj] \<longrightarrow>
            (\<exists>i vals. row_id obj = Some i
               \<and> map_of vals = map_of (field_values obj) ++ map_of (data request)
               \<and> update self request args kwargs s = (Inr (Rc ALL_OK), AList.update i vals s)))"
proof -
  have 1: "pkfield \<notin> fst ` set kwargs \<longrightarrow>
            update self request args kwargs s = (Inr (Rc BAD_REQUEST), s)"
    by (simp add: update_def pkfield_def Let_def)
  have 2: "pkfield \<in> fst ` set kwargs \<and> found = [] \<longrightarrow>
            update self request args kwargs s = (Inr (Rc NOT_FOUND), s)"
  proof
    assume a: "pkfield \<in> fst ` set kwargs \<and> found = []"
    then have "qs_get (objects_all s) [] [(pk_name self, dict_get kwargs (pk_name self))] = Inl DoesNotExist"
      unfolding found_def by (simp add: qs_get_none)
    with a show "update self request args kwargs s = (Inr (Rc NOT_FOUND), s)"
      by (simp add: update_def pkfield_def queryset_def Let_def)
  qed
  have 3: "pkfield \<in> fst ` set kwargs \<and> 2 \<le> length found \<longrightarrow>
            update self request args kwargs s = (Inr (Rc BAD_REQUEST), s)"
  proof
    assume a: "pkfield \<in> fst ` set kwargs \<and> 2 \<le> length found"
    then have "qs_get (objects_all s) [] [(pk_name self, dict_get kwargs (pk_name self))]
                 = Inl MultipleObjectsReturned"
      unfolding found_def by (simp add: qs_get_many)
    with a show "update self request args kwargs s = (Inr (Rc BAD_REQUEST), s)"
      by (simp add: update_def pkfield_def queryset_def Let_def)
  qed
  have 4: "\<forall>obj. pkfield \<in> fst ` set kwargs \<and> found = [obj] \<longrightarrow>
            (\<exists>i vals. row_id obj = Some i
               \<and> map_of vals = map_of (field_values obj) ++ map_of (data request)
               \<and> update self request args kwargs s = (Inr (Rc ALL_OK), AList.update i vals s))"
  proof (intro allI impI)
    fix obj
    assume a: "pkfield \<in> fst ` set kwargs \<and> found = [obj]"
    then have f: "qs_filter (objects_all s) [] [(pk_name self, dict_get kwargs (pk_name self))] = [obj]"
      by (simp add: found_def)
    from qs_filter_row_id [OF f] obtain i where i: "row_id obj = Some i" by blast
    define vals where
      "vals = fold (\<lambda>(k, v) d. AList.update k v d) (flatten_dict (data request)) (field_values obj)"
    have "map_of vals = map_of (field_values obj) ++ map_of (rev (flatten_dict (data request)))"
      by (simp add: vals_def fold_update_map_of)
    then have m: "map_of vals = map_of (field_values obj) ++ map_of (data request)"
      by (simp add: map_of_rev_distinct flatten_dict_distinct flatten_dict_map_of)
    from f have "qs_get (objects_all s) [] [(pk_name self, dict_get kwargs (pk_name self))] = Inr obj"
      by (rule qs_get_one)
    with a i have "update self request args kwargs s = (Inr (Rc ALL_OK), AList.update i vals s)"
      by (simp add: update_def pkfield_def queryset_def fold_setattr inst_save_def vals_def Let_def)
    with i m show "\<exists>i vals. row_id obj = Some i
               \<and> map_of vals = map_of (field_values obj) ++ map_of (data request)
               \<and> update self request args kwargs s = (Inr (Rc ALL_OK), AList.update i vals s)"
      by blast
  qed
  from 1 2 3 4 show ?thesis by blast
qed

lemma matches_pk:
  assumes "pkfield \<in> fst ` set kwargs" and "matches args kwargs obj"
  shows "matches [] [(pkfield, dict_get kwargs pkfield)] obj"
proof -
  from assms(1) obtain v where v: "map_of kwargs pkfield = Some v"
    by (metis map_of_eq_None_iff not_Some_eq)
  then have "(pkfield, v) \<in> set kwargs" by (rule map_of_SomeD)
  with assms(2) have "map_of (field_values obj) pkfield = Some v"
    by (auto simp: matches_def list_all_iff)
  with v show ?thesis by (simp add: matches_def dict_get_def)
qed

lemma qs_filter_pk_empty:
  assumes "pkfield \<in> fst ` set kwargs"
    and "qs_filter qs [] [(pkfield, dict_get kwargs pkfield)] = []"
  shows "qs_filter qs args kwargs = []"
proof -
  from assms(2) have "\<forall>obj \<in> set qs. \<not> matches [] [(pkfield, dict_get kwargs pkfield)] obj"
    by (simp add: qs_filter_def filter_empty_conv)
  with assms(1) have "\<forall>obj \<in> set qs. \<not> matches args kwargs obj"
    using matches_pk by blast
  then show ?thesis by (simp add: qs_filter_def filter_empty_conv)
qed

text \<open>
  Claim C8. For a primary-key lookup that matches no record, \<open>read\<close> and \<open>update\<close>
  return \<open>NOT_FOUND\<close>, and \<open>delete\<close> with the same parameters returns
  \<open>NOT_HERE\<close>, a different sentinel; \<open>delete\<close> returns \<open>NOT_HERE\<close> whenever
  its criteria match nothing, \<open>DUPLICATE_ENTRY\<close> when they match several records,
  and on a unique match it removes that record and returns \<open>DELETED\<close>.
\<close>

theorem no_match_sentinels:
  fixes self :: model_resource and request :: request
    and args :: "(inst \<Rightarrow> bool) list" and kwargs :: "(string \<times> pyval) list" and s :: store
  defines "pkfield \<equiv> pk_name self"
    and "by_key \<equiv> qs_filter (objects_all s) [] [(pk_name self, dict_get kwargs (pk_name self))]"
    and "found \<equiv> qs_filter (objects_all s) args kwargs"
  shows "(pkfield \<in> fst ` set kwargs \<and> by_key = [] \<longrightarrow>
            read self request args kwargs s = (Inr (Rc NOT_FOUND), s)
          \<and> update self request args kwargs s = (Inr (Rc NOT_FOUND), s)
          \<and> delete self request args kwargs s = (Inr (Rc NOT_HERE), s))
       \<and> (found = [] \<longrightarrow> delete self request args kwargs s = (Inr (Rc NOT_HERE), s))
       \<and> (2 \<le> length found \<longrightarrow>
            delete self request args kwargs s = (Inr (Rc DUPLICATE_ENTRY), s))
       \<and> (\<forall>obj. found = [obj] \<longrightarrow>
            (\<exists>i. row_id obj = Some i \<and> (i, field_values obj) \<in> set s
               \<and> delete self request args kwargs s
                   = (Inr (Rc DELETED), filter (\<lambda>(j, vals). j \<noteq> i) s)
               \<and> i \<notin> fst ` set (filter (\<lambda>(j, vals). j \<noteq> i) s)))
       \<and> Rc NOT_HERE \<noteq> Rc NOT_FOUND"
proof -
  have del_none: "found = [] \<longrightarrow> delete self request args kwargs s = (Inr (Rc NOT_HERE), s)"
  proof
    assume "found = []"
    then have "qs_get (objects_all s) args kwargs = Inl DoesNotExist"
      unfolding found_def by (rule qs_get_none)
    then show "delete self request args kwargs s = (Inr (Rc NOT_HERE), s)"
      by (simp add: delete_def queryset_def)
  qed
  have key_none: "pkfield \<in> fst ` set kwargs \<and> by_key = [] \<longrightarrow>
            read self request args kwargs s = (Inr (Rc NOT_FOUND), s)
          \<and> update self request args kwargs s = (Inr (Rc NOT_FOUND), s)
          \<and> delete self request args kwargs s = (Inr (Rc NOT_HERE), s)"
  proof
    assume a: "pkfield \<in> fst ` set kwargs \<and> by_key = []"
    then have g: "qs_get (objects_all s) [] [(pk_name self, dict_get kwargs (pk_name self))]
                    = Inl DoesNotExist"
      unfolding by_key_def by (simp add: qs_get_none)
    from a have k: "pk_name self \<in> fst ` set kwargs"
      and e: "qs_filter (objects_all s) [] [(pk_name self, dict_get kwargs (pk_name self))] = []"
      by (simp_all add: pkfield_def by_key_def)
    have "found = []"
      unfolding found_def by (rule qs_filter_pk_empty [OF k e])
    with del_none have "delete self request args kwargs s = (Inr (Rc NOT_HERE), s)" by simp
    moreover from a g have "read self request args kwargs s = (Inr (Rc NOT_FOUND), s)"
      by (simp add: read_def pkfield_def queryset_def Let_def)
    moreover from a g have "update self request args kwargs s = (Inr (Rc NOT_FOUND), s)"
      by (simp add: update_def pkfield_def queryset_def Let_def)
    ultimately show "read self request args kwargs s = (Inr (Rc NOT_FOUND), s)
          \<and> update self request args kwargs s = (Inr (Rc NOT_FOUND), s)
          \<and> delete self request args kwargs s = (Inr (Rc NOT_HERE), s)"
      by simp
  qed
  have del_many: "2 \<le> length found \<longrightarrow>
            delete self request args kwargs s = (Inr (Rc DUPLICATE_ENTRY), s)"
  proof
    assume "2 \<le> length found"
    then have "qs_get (objects_all s) args kwargs = Inl MultipleObjectsReturned"
      unfolding found_def by (rule qs_get_many)
    then show "delete self request args kwargs s = (Inr (Rc DUPLICATE_ENTRY), s)"
      by (simp add: delete_def queryset_def)
  qed
  have del_one: "\<forall>obj. found = [obj] \<longrightarrow>
            (\<exists>i. row_id obj = Some i \<and> (i, field_values obj) \<in> set s
               \<and> delete self request args kwargs s
                   = (Inr (Rc DELETED), filter (\<lambda>(j, vals). j \<noteq> i) s)
               \<and> i \<notin> fst ` set (filter (\<lambda>(j, vals). j \<noteq> i) s))"
  proof (intro allI impI)
    fix obj
    assume "found = [obj]"
    then have f: "qs_filter (objects_all s) args kwargs = [obj]" by (simp add: found_def)
    from qs_filter_row_id [OF f] obtain i
      where i: "row_id obj = Some i" "(i, field_values obj) \<in> set s" by blast
    from f have "qs_get (objects_all s) args kwargs = Inr obj" by (rule qs_get_one)
    with i have "delete self request args kwargs s
                   = (Inr (Rc DELETED), filter (\<lambda>(j, vals). j \<noteq> i) s)"
      by (simp add: delete_def queryset_def inst_delete_def)
    moreover have "i \<notin> fst ` set (filter (\<lambda>(j, vals). j \<noteq> i) s)" by auto
    ultimately show "\<exists>i. row_id obj = Some i \<and> (i, field_values obj) \<in> set s
               \<and> delete self request args kwargs s
                   = (Inr (Rc DELETED), filter (\<lambda>(j, vals). j \<noteq> i) s)
               \<and> i \<notin> fst ` set (filter (\<lambda>(j, vals). j \<noteq> i) s)"
      using i by blast
  qed
  from key_none del_none del_many del_one show ?thesis by blast
qed

theorem create_duplicate_check_witness:
  "qs_filter (objects_all []) []
      (flatten_dict (data \<lparr> method = ''POST'', META = [], data = [(''name'', PyStr ''a'')] \<rparr>)) = []
   \<and> create \<lparr> self_fields = [Name ''id'', Name ''name''], default_obj_fields = [Name ''id''],
               default_list_fields = [Name ''id''], pk_name = ''id'' \<rparr>
        \<lparr> method = ''POST'', META = [], data = [(''name'', PyStr ''a'')] \<rparr> [] [] []
      = (Inr (Instance \<lparr> row_id = Some 0, field_values = [(''name'', PyStr ''a'')] \<rparr>),
         [(0, [(''name'', PyStr ''a'')])])
   \<and> create \<lparr> self_fields = [Name ''id'', Name ''name''], default_obj_fields = [Name ''id''],
               default_list_fields = [Name ''id''], pk_name = ''id'' \<rparr>
        \<lparr> method = ''POST'', META = [], data = [(''name'', PyStr ''a'')] \<rparr> [] []
        [(0, [(''name'', PyStr ''a'')])]
      = (Inr (Rc DUPLICATE_ENTRY), [(0, [(''name'', PyStr ''a'')])])"
proof -
  let ?self = "\<lparr> self_fields = [Name ''id'', Name ''name''], default_obj_fields = [Name ''id''],
               default_list_fields = [Name ''id''], pk_name = ''id'' \<rparr>"
  let ?request = "\<lparr> method = ''POST'', META = [], data = [(''name'', PyStr ''a'')] \<rparr>"
  have f: "flatten_dict [(''name'', PyStr ''a'')] = [(''name'', PyStr ''a'')]"
    by (simp add: flatten_dict_def py_dict_def dict_get_def)
  have h: "qs_filter (objects_all []) [] (flatten_dict (data ?request)) = []"
    by (simp add: qs_filter_def objects_all_def)
  from create_duplicate_check [where self = ?self and request = ?request and args = "[]"
      and kwargs = "[]" and s = "[]"] h
  show ?thesis by (simp add: f)
qed

theorem update_outcomes_witness:
  "''id'' \<notin> fst ` set ([] :: (string \<times> pyval) list)
   \<and> update \<lparr> self_fields = [Name ''id'', Name ''name''], default_obj_fields = [Name ''id''],
               default_list_fields = [Name ''id''], pk_name = ''id'' \<rparr>
        \<lparr> method = ''PUT'', META = [], data = [(''name'', PyStr ''b'')] \<rparr> [] []
        [(0, [(''id'', PyInt 1), (''name'', PyStr ''a'')])]
      = (Inr (Rc BAD_REQUEST), [(0, [(''id'', PyInt 1), (''name'', PyStr ''a'')])])
   \<and> ''id'' \<in> fst ` set [(''id'', PyInt 1)]
   \<and> qs_filter (objects_all [(0, [(''id'', PyInt 1), (''name'', PyStr ''a'')])]) []
        [(''id'', dict_get [(''id'', PyInt 1)] ''id'')]
      = [\<lparr> row_id = Some 0, field_values = [(''id'', PyInt 1), (''name'', PyStr ''a'')] \<rparr>]
   \<and> (\<exists>vals. map_of vals = map_of [(''id'', PyInt 1), (''name'', PyStr ''a'')]
                                ++ map_of [(''name'', PyStr ''b'')]
         \<and> update \<lparr> self_fields = [Name ''id'', Name ''name''], default_obj_fields = [Name ''id''],
                     default_list_fields = [Name ''id''], pk_name = ''id'' \<rparr>
              \<lparr> method = ''PUT'', META = [], data = [(''name'', PyStr ''b'')] \<rparr> []
              [(''id'', PyInt 1)] [(0, [(''id'', PyInt 1), (''name'', PyStr ''a'')])]
            = (Inr (Rc ALL_OK), [(0, vals)]))"
proof -
  let ?self = "\<lparr> self_fields = [Name ''id'', Name ''name''], default_obj_fields = [Name ''id''],
               default_list_fields = [Name ''id''], pk_name = ''id'' \<rparr>"
  let ?request = "\<lparr> method = ''PUT'', META = [], data = [(''name'', PyStr ''b'')] \<rparr>"
  let ?s = "[(0::nat, [(''id'', PyInt 1), (''name'', PyStr ''a'')])]"
  let ?obj = "\<lparr> row_id = Some 0, field_values = [(''id'', PyInt 1), (''name'', PyStr ''a'')] \<rparr>"
  have h1: "''id'' \<notin> fst ` set ([] :: (string \<times> pyval) list)" by simp
  have h2: "''id'' \<in> fst ` set [(''id'', PyInt 1)]" by simp
  have h3: "qs_filter (objects_all ?s) [] [(''id'', dict_get [(''id'', PyInt 1)] ''id'')] = [?obj]"
    by (simp add: qs_filter_def objects_all_def matches_def dict_get_def)
  from update_outcomes [where self = ?self and request = ?request and args = "[]"
      and kwargs = "[]" and s = ?s] h1
  have a: "update ?self ?request [] [] ?s = (Inr (Rc BAD_REQUEST), ?s)" by simp
  from update_outcomes [where self = ?self and request = ?request and args = "[]"
      and kwargs = "[(''id'', PyInt 1)]" and s = ?s] h2 h3
  have "\<exists>i vals. row_id ?obj = Some i
          \<and> map_of vals = map_of (field_values ?obj) ++ map_of (data ?request)
          \<and> update ?self ?request [] [(''id'', PyInt 1)] ?s
              = (Inr (Rc ALL_OK), AList.update i vals ?s)"
    by simp
  then have b: "\<exists>vals. map_of vals = map_of [(''id'', PyInt 1), (''name'', PyStr ''a'')]
                                ++ map_of [(''name'', PyStr ''b'')]
         \<and> update ?self ?request [] [(''id'', PyInt 1)] ?s = (Inr (Rc ALL_OK), [(0, vals)])"
    by auto
  from h1 a h2 h3 b show ?thesis by blast
qed

theorem no_match_sentinels_witness:
  "''id'' \<in> fst ` set [(''id'', PyInt 7)]
   \<and> qs_filter (objects_all [(0, [(''id'', PyInt 1), (''name'', PyStr ''a'')])]) []
        [(''id'', dict_get [(''id'', PyInt 7)] ''id'')] = []
   \<and> read \<lparr> self_fields = [Name ''id'', Name ''name''], default_obj_fields = [Name ''id''],
             default_list_fields = [Name ''id''], pk_name = ''id'' \<rparr>
        \<lparr> method = ''GET'', META = [], data = [] \<rparr> [] [(''id'', PyInt 7)]
        [(0, [(''id'', PyInt 1), (''name'', PyStr ''a'')])]
      = (Inr (Rc NOT_FOUND), [(0, [(''id'', PyInt 1), (''name'', PyStr ''a'')])])
   \<and> delete \<lparr> self_fields = [Name ''id'', Name ''name''], default_obj_fields = [Name ''id''],
               default_list_fields = [Name ''id''], pk_name = ''id'' \<rparr>
        \<lparr> method = ''DELETE'', META = [], data = [] \<rparr> [] [(''id'', PyInt 7)]
        [(0, [(''id'', PyInt 1), (''name'', PyStr ''a'')])]
      = (Inr (Rc NOT_HERE), [(0, [(''id'', PyInt 1), (''name'', PyStr ''a'')])])
   \<and> qs_filter (objects_all [(0, [(''id'', PyInt 1), (''name'', PyStr ''a'')])]) []
        [(''id'', PyInt 1)]
      = [\<lparr> row_id = Some 0, field_values = [(''id'', PyInt 1), (''name'', PyStr ''a'')] \<rparr>]
   \<and> delete \<lparr> self_fields = [Name ''id'', Name ''name''], default_obj_fields = [Name ''id''],
               default_list_fields = [Name ''id''], pk_name = ''id'' \<rparr>
        \<lparr> method = ''DELETE'', META = [], data = [] \<rparr> [] [(''id'', PyInt 1)]
        [(0, [(''id'', PyInt 1), (''name'', PyStr ''a'')])]
      = (Inr (Rc DELETED), [])"
proof -
  let ?self = "\<lparr> self_fields = [Name ''id'', Name ''name''], default_obj_fields = [Name ''id''],
               default_list_fields = [Name ''id''], pk_name = ''id'' \<rparr>"
  let ?get = "\<lparr> method = ''GET'', META = [], data = [] \<rparr>"
  let ?del = "\<lparr> method = ''DELETE'', META = [], data = [] \<rparr>"
  let ?s = "[(0::nat, [(''id'', PyInt 1), (''name'', PyStr ''a'')])]"
  let ?obj = "\<lparr> row_id = Some 0, field_values = [(''id'', PyInt 1), (''name'', PyStr ''a'')] \<rparr>"
  have h1: "''id'' \<in> fst ` set [(''id'', PyInt 7)]" by simp
  have h2: "qs_filter (objects_all ?s) [] [(''id'', dict_get [(''id'', PyInt 7)] ''id'')] = []"
    by (simp add: qs_filter_def objects_all_def matches_def dict_get_def)
  have h3: "qs_filter (objects_all ?s) [] [(''id'', PyInt 1)] = [?obj]"
    by (simp add: qs_filter_def objects_all_def matches_def)
  from no_match_sentinels [where self = ?self and request = ?get and args = "[]"
      and kwargs = "[(''id'', PyInt 7)]" and s = ?s] h1 h2
  have a: "read ?self ?get [] [(''id'', PyInt 7)] ?s = (Inr (Rc NOT_FOUND), ?s)" by simp
  from no_match_sentinels [where self = ?self and request = ?del and args = "[]"
      and kwargs = "[(''id'', PyInt 7)]" and s = ?s] h1 h2
  have b: "delete ?self ?del [] [(''id'', PyInt 7)] ?s = (Inr (Rc NOT_HERE), ?s)" by simp
  from no_match_sentinels [where self = ?self and request = ?del and args = "[]"
      and kwargs = "[(''id'', PyInt 1)]" and s = ?s] h3
  have c: "delete ?self ?del [] [(''id'', PyInt 1)] ?s = (Inr (Rc DELETED), [])" by auto
  from h1 h2 a b h3 c show ?thesis by blast
qed

section \<open>Properties of \<^verbatim>\<open>get_result\<close> and \<^verbatim>\<open>dispatch\<close>\<close>

lemma fold_set_header_status:
  "status_code (fold (\<lambda>(header, v) r. set_header r header v) hs resp) = status_code resp"
  by (induction hs arbitrary: resp) (auto simp: set_header_def)

lemma get_result_Http404:
  assumes "deserialize self request w = (Inr request', w')"
    and "getattr self (case map_of (callmap self) (upper (method request')) of
                         None \<Rightarrow> [] | Some name \<Rightarrow> name) = None"
  shows "get_result self request args kwargs w = (Inl Http404, w')"
  using assms by (simp add: get_result_def get_result_try_def Let_def)

text \<open>
  An exception that the method itself raises, other than the two decode exceptions,
  leaves \<open>get_result\<close> as well: so does the \<open>NotImplementedError\<close> of the CRUD
  stubs of \<open>BaseResource\<close>.
\<close>

lemma get_result_method_raises:
  assumes "deserialize self request w = (Inr request', w')"
    and "getattr self (case map_of (callmap self) (upper (method request')) of
                         None \<Rightarrow> [] | Some name \<Rightarrow> name) = Some meth"
    and "meth request' args kwargs w' = (Inl e, w'')"
    and "e \<noteq> MimerDataException" and "e \<noteq> UnsupportedMediaTypeException"
  shows "get_result self request args kwargs w = (Inl e, w'')"
  using assms by (cases e) (simp_all add: get_result_def get_result_try_def Let_def)

text \<open>
  Claim C2, as the code has it. When the request deserializes and its upper-cased
  method leads to no method of the resource, \<open>get_result\<close> raises \<open>Http404\<close>;
  neither of its \<open>except\<close> clauses catches it, and \<open>dispatch\<close>, unless a cached
  response answers first, lets it through: no sentinel result is produced, and the
  world is as deserialization left it.
\<close>

theorem unmapped_verb_raises_Http404:
  assumes "deserialize self request (world st) = (Inr request', w')"
    and "getattr self (case map_of (callmap self) (upper (method request')) of
                         None \<Rightarrow> [] | Some name \<Rightarrow> name) = None"
  shows "get_result self request args kwargs (world st) = (Inl Http404, w')
       \<and> ((case cache st of None \<Rightarrow> None | Some c \<Rightarrow> get_response c request) = None \<longrightarrow>
            dispatch self request args kwargs st = (Inl Http404, st \<lparr> world := w' \<rparr>))"
proof -
  have g: "get_result self request args kwargs (world st) = (Inl Http404, w')"
    using assms by (rule get_result_Http404)
  then show ?thesis by (simp add: dispatch_def)
qed

lemma fold_set_header_container:
  "container (fold (\<lambda>(header, v) r. set_header r header v) hs resp) = container resp"
  by (induction hs arbitrary: resp) (auto simp: set_header_def)

lemma get_result_decode_error:
  assumes "deserialize self request w = (Inl e, w')"
    and "get_result_except (Inl e) = Inr (Rc sentinel)"
  shows "get_result (self \<lparr> getattr := g \<rparr>) request args kwargs w
           = (Inr (RcContainer sentinel, [], rc_status_code sentinel), w')"
  using assms by (simp add: get_result_def get_result_try_def deserialize_def)

lemma dispatch_after_get_result:
  assumes "(case cache st of None \<Rightarrow> None | Some c \<Rightarrow> get_response c request) = None"
    and "get_result self request args kwargs (world st) = (Inr (result, http_headers, status), w1)"
    and "serialize self request result w1 = (Inr (Content content, ct), w2)"
  shows "\<exists>resp st'. dispatch self request args kwargs st = (Inr resp, st')
           \<and> status_code resp = status \<and> container resp = content \<and> world st' = w2"
  using assms
  by (simp add: dispatch_def Let_def fold_set_header_status fold_set_header_container
      HttpResponse_def)

text \<open>
  Claim C4. When deserialization raises for an unsupported content type, \<open>get_result\<close>
  returns the \<open>UNSUPPORTED_MEDIA_TYPE\<close> sentinel, status 415; when it raises for
  malformed data, the \<open>BAD_REQUEST\<close> sentinel, status 400. The outcome and the
  world are the same whatever methods the resource has: no CRUD method runs. With no
  cached response and a serializer that returns content, \<open>dispatch\<close> returns a
  response with that status; the decode exception does not propagate.
\<close>

theorem decode_errors_become_sentinels:
  fixes self :: "'w resource" and st :: "'w state"
  shows
  "(deserialize self request (world st) = (Inl UnsupportedMediaTypeException, w') \<longrightarrow>
      (\<forall>g. get_result (self \<lparr> getattr := g \<rparr>) request args kwargs (world st)
             = (Inr (RcContainer UNSUPPORTED_MEDIA_TYPE, [], 415), w'))
    \<and> (\<forall>content ct w''.
          (case cache st of None \<Rightarrow> None | Some c \<Rightarrow> get_response c request) = None
          \<and> serialize self request (RcContainer UNSUPPORTED_MEDIA_TYPE) w'
              = (Inr (Content content, ct), w'') \<longrightarrow>
          (\<exists>resp st'. dispatch self request args kwargs st = (Inr resp, st')
             \<and> status_code resp = 415 \<and> container resp = content \<and> world st' = w'')))
 \<and> (deserialize self request (world st) = (Inl MimerDataException, w') \<longrightarrow>
      (\<forall>g. get_result (self \<lparr> getattr := g \<rparr>) request args kwargs (world st)
             = (Inr (RcContainer BAD_REQUEST, [], 400), w'))
    \<and> (\<forall>content ct w''.
          (case cache st of None \<Rightarrow> None | Some c \<Rightarrow> get_response c request) = None
          \<and> serialize self request (RcContainer BAD_REQUEST) w'
              = (Inr (Content content, ct), w'') \<longrightarrow>
          (\<exists>resp st'. dispatch self request args kwargs st = (Inr resp, st')
             \<and> status_code resp = 400 \<and> container resp = content \<and> world st' = w'')))"
proof -
  have decode: "\<forall>g. get_result (self \<lparr> getattr := g \<rparr>) request args kwargs (world st)
             = (Inr (RcContainer sentinel, [], rc_status_code sentinel), w')"
    if "deserialize self request (world st) = (Inl e, w')"
      and "get_result_except (Inl e) = Inr (Rc sentinel)" for e sentinel
    using that by (simp add: get_result_decode_error)
  have whole: "\<forall>content ct w''.
          (case cache st of None \<Rightarrow> None | Some c \<Rightarrow> get_response c request) = None
          \<and> serialize self request (RcContainer sentinel) w' = (Inr (Content content, ct), w'') \<longrightarrow>
          (\<exists>resp st'. dispatch self request args kwargs st = (Inr resp, st')
             \<and> status_code resp = rc_status_code sentinel \<and> container resp = content
             \<and> world st' = w'')"
    if d: "deserialize self request (world st) = (Inl e, w')"
      and x: "get_result_except (Inl e) = Inr (Rc sentinel)" for e sentinel
  proof (intro allI impI)
    fix content ct w''
    assume a: "(case cache st of None \<Rightarrow> None | Some c \<Rightarrow> get_response c request) = None
          \<and> serialize self request (RcContainer sentinel) w' = (Inr (Content content, ct), w'')"
    from a have c0: "(case cache st of None \<Rightarrow> None | Some c \<Rightarrow> get_response c request) = None"
      and se: "serialize self request (RcContainer sentinel) w' = (Inr (Content content, ct), w'')"
      by simp_all
    from get_result_decode_error [OF d x, of "getattr self"]
    have g: "get_result self request args kwargs (world st)
            = (Inr (RcContainer sentinel, [], rc_status_code sentinel), w')"
      by simp
    from dispatch_after_get_result [OF c0 g se]
    show "\<exists>resp st'. dispatch self request args kwargs st = (Inr resp, st')
             \<and> status_code resp = rc_status_code sentinel \<and> container resp = content
             \<and> world st' = w''" .
  qed
  from decode [of UnsupportedMediaTypeException UNSUPPORTED_MEDIA_TYPE]
    decode [of MimerDataException BAD_REQUEST]
    whole [of UnsupportedMediaTypeException UNSUPPORTED_MEDIA_TYPE]
    whole [of MimerDataException BAD_REQUEST]
  show ?thesis by simp
qed

lemma get_response_cache_response:
  "get_response (cache_response c request resp) request = Some resp"
  by (simp add: get_response_def cache_response_def update_conv')

lemma dispatch_hit:
  assumes "cache st = Some c" and "get_response c request = Some response"
  shows "dispatch self request args kwargs st = (Inr response, st)"
  using assms by (simp add: dispatch_def)

lemma dispatch_miss_stores:
  assumes "cache st = Some c" and "get_response c request = None"
    and "dispatch self request args kwargs st = (Inr resp, st')"
  shows "cache st' = Some (cache_response c request resp)"
  using assms
  by (auto simp: dispatch_def Let_def split: prod.splits sum.splits)

text \<open>
  Claim C9. With a cache configured, a hit makes \<open>dispatch\<close> return the cached
  response and leave the whole state, world and cache, as it was, whatever the
  deserializer, the CRUD methods and the serializer are. On a miss, a dispatch that
  returns a response has stored that response under the request, so that a second
  dispatch of the same request, to any resource, returns the same response and changes
  nothing.
\<close>

theorem dispatch_cache:
  fixes self self' :: "'w resource" and st st' :: "'w state"
  shows
  "(cache st = Some c \<and> get_response c request = Some response \<longrightarrow>
      dispatch self request args kwargs st = (Inr response, st))
 \<and> (cache st = Some c \<and> get_response c request = None
      \<and> dispatch self request args kwargs st = (Inr resp, st') \<longrightarrow>
      cache st' = Some (cache_response c request resp)
    \<and> get_response (cache_response c request resp) request = Some resp
    \<and> dispatch self' request args' kwargs' st' = (Inr resp, st'))"
proof -
  have hit: "cache st = Some c \<and> get_response c request = Some response \<longrightarrow>
      dispatch self request args kwargs st = (Inr response, st)"
    by (simp add: dispatch_hit)
  have miss: "cache st = Some c \<and> get_response c request = None
      \<and> dispatch self request args kwargs st = (Inr resp, st') \<longrightarrow>
      cache st' = Some (cache_response c request resp)
    \<and> get_response (cache_response c request resp) request = Some resp
    \<and> dispatch self' request args' kwargs' st' = (Inr resp, st')"
  proof
    assume a: "cache st = Some c \<and> get_response c request = None
      \<and> dispatch self request args kwargs st = (Inr resp, st')"
    then have stored: "cache st' = Some (cache_response c request resp)"
      by (blast intro: dispatch_miss_stores)
    have found: "get_response (cache_response c request resp) request = Some resp"
      by (rule get_response_cache_response)
    from stored found have "dispatch self' request args' kwargs' st' = (Inr resp, st')"
      by (rule dispatch_hit)
    with stored found show "cache st' = Some (cache_response c request resp)
    \<and> get_response (cache_response c request resp) request = Some resp
    \<and> dispatch self' request args' kwargs' st' = (Inr resp, st')"
      by simp
  qed
  from hit miss show ?thesis by simp
qed

theorem unmapped_verb_raises_Http404_witness:
  "let ser = \<lparr> serializer_serialize =
                 (\<lambda>request result selected w. (Inr (Content [''{}''], ''application/json''), w)),
               serializer_deserialize = (\<lambda>request (w :: nat). (Inr request, w)) \<rparr>;
       self = BaseResource ser [''json''];
       request = \<lparr> method = ''patch'', META = [], data = [] \<rparr>;
       st = \<lparr> world = 0, cache = Some [] \<rparr>
   in deserialize self request (world st) = (Inr request, 0)
    \<and> getattr self (case map_of (callmap self) (upper (method request)) of
                       None \<Rightarrow> [] | Some name \<Rightarrow> name) = None
    \<and> get_result self request [] [] (world st) = (Inl Http404, 0)
    \<and> dispatch self request [] [] st = (Inl Http404, st)"
proof -
  let ?ser = "\<lparr> serializer_serialize =
                 (\<lambda>request result selected w. (Inr (Content [''{}''], ''application/json''), w)),
               serializer_deserialize = (\<lambda>request (w :: nat). (Inr request, w)) \<rparr>"
  let ?self = "BaseResource ?ser [''json'']"
  let ?request = "\<lparr> method = ''patch'', META = [], data = [] \<rparr>"
  let ?st = "\<lparr> world = 0 :: nat, cache = Some [] \<rparr>"
  have h1: "deserialize ?self ?request (world ?st) = (Inr ?request, 0)"
    by (simp add: deserialize_def BaseResource_def)
  have h2: "getattr ?self (case map_of (callmap ?self) (upper (method ?request)) of
                       None \<Rightarrow> [] | Some name \<Rightarrow> name) = None"
    by (simp add: BaseResource_def default_callmap_def upper_def upper_char_def)
  from unmapped_verb_raises_Http404 [OF h1 h2, of "[]" "[]"] h1 h2
  show ?thesis by (simp add: Let_def get_response_def)
qed

text \<open>
  Claim C2 as stated fails: dispatching \<open>PATCH\<close> to a \<open>BaseResource\<close> does not
  return a response, it raises \<open>Http404\<close> across the dispatch boundary.
\<close>

theorem unmapped_verb_counterexample:
  "fst (dispatch
         (BaseResource
            \<lparr> serializer_serialize =
                (\<lambda>request result selected w. (Inr (Content [''{}''], ''application/json''), w)),
              serializer_deserialize = (\<lambda>request (w :: nat). (Inr request, w)) \<rparr>
            [''json''])
         \<lparr> method = ''PATCH'', META = [], data = [] \<rparr> [] []
         \<lparr> world = 0, cache = None \<rparr>)
   = Inl Http404"
  by (simp add: dispatch_def get_result_def get_result_try_def deserialize_def BaseResource_def
      default_callmap_def upper_def upper_char_def)

theorem decode_errors_become_sentinels_witness:
  "let ser = \<lparr> serializer_serialize =
                 (\<lambda>request result selected w. (Inr (Content [], ''application/json''), w)),
               serializer_deserialize =
                 (\<lambda>request (w :: nat).
                    if map_of (META request) ''CONTENT_TYPE'' = Some ''application/json''
                    then (Inr request, w) else (Inl UnsupportedMediaTypeException, w)) \<rparr>;
       self = \<lparr> callmap = default_callmap,
                getattr = map_of [(''create'',
                                   \<lambda>request args kwargs n. (Inr (Container [''made'']), Suc n))],
                serializer = ser,
                get_fields_method = (\<lambda>request result. []),
                get_headers_method = get_headers [''json''] \<rparr>;
       request = \<lparr> method = ''POST'', META = [(''CONTENT_TYPE'', ''text/csv'')], data = [] \<rparr>;
       st = \<lparr> world = 0, cache = None \<rparr>
   in deserialize self request (world st) = (Inl UnsupportedMediaTypeException, 0)
    \<and> get_result self request [] [] (world st)
        = (Inr (RcContainer UNSUPPORTED_MEDIA_TYPE, [], 415), 0)
    \<and> (\<exists>resp st'. dispatch self request [] [] st = (Inr resp, st')
          \<and> status_code resp = 415 \<and> container resp = [] \<and> world st' = 0)"
proof -
  let ?ser = "\<lparr> serializer_serialize =
                 (\<lambda>request result selected w. (Inr (Content [], ''application/json''), w)),
               serializer_deserialize =
                 (\<lambda>request (w :: nat).
                    if map_of (META request) ''CONTENT_TYPE'' = Some ''application/json''
                    then (Inr request, w) else (Inl UnsupportedMediaTypeException, w)) \<rparr>"
  let ?self = "\<lparr> callmap = default_callmap,
                getattr = map_of [(''create'',
                                   \<lambda>request args kwargs n. (Inr (Container [''made'']), Suc n))],
                serializer = ?ser,
                get_fields_method = (\<lambda>request result. []),
                get_headers_method = get_headers [''json''] \<rparr>"
  let ?request = "\<lparr> method = ''POST'', META = [(''CONTENT_TYPE'', ''text/csv'')], data = [] \<rparr>"
  let ?st = "\<lparr> world = 0 :: nat, cache = None \<rparr>"
  have h1: "deserialize ?self ?request (world ?st) = (Inl UnsupportedMediaTypeException, 0)"
    by (simp add: deserialize_def)
  have h2: "(case cache ?st of None \<Rightarrow> None | Some c \<Rightarrow> get_response c ?request) = None
          \<and> serialize ?self ?request (RcContainer UNSUPPORTED_MEDIA_TYPE) 0
              = (Inr (Content [], ''application/json''), 0)"
    by (simp add: serialize_def)
  from decode_errors_become_sentinels [of ?self ?request ?st 0 "[]" "[]"] h1
  have a: "(\<forall>g. get_result (?self \<lparr> getattr := g \<rparr>) ?request [] [] (world ?st)
             = (Inr (RcContainer UNSUPPORTED_MEDIA_TYPE, [], 415), 0))"
    and b: "(\<forall>content ct w''.
          (case cache ?st of None \<Rightarrow> None | Some c \<Rightarrow> get_response c ?request) = None
          \<and> serialize ?self ?request (RcContainer UNSUPPORTED_MEDIA_TYPE) 0
              = (Inr (Content content, ct), w'') \<longrightarrow>
          (\<exists>resp st'. dispatch ?self ?request [] [] ?st = (Inr resp, st')
             \<and> status_code resp = 415 \<and> container resp = content \<and> world st' = w''))"
    by blast+
  from a [rule_format, of "getattr ?self"]
  have g: "get_result ?self ?request [] [] (world ?st)
        = (Inr (RcContainer UNSUPPORTED_MEDIA_TYPE, [], 415), 0)"
    by simp
  from b [rule_format, OF h2]
  have d: "\<exists>resp st'. dispatch ?self ?request [] [] ?st = (Inr resp, st')
          \<and> status_code resp = 415 \<and> container resp = [] \<and> world st' = 0" .
  from h1 g d show ?thesis unfolding Let_def by blast
qed

theorem dispatch_cache_witness:
  "let ser = \<lparr> serializer_serialize =
                 (\<lambda>request result selected w. (Inr (Content [''x''], ''text/plain''), w)),
               serializer_deserialize = (\<lambda>request (w :: nat). (Inr request, w)) \<rparr>;
       self = \<lparr> callmap = default_callmap,
                getattr = map_of [(''read'',
                                   \<lambda>request args kwargs n. (Inr (Container [''x'']), Suc n))],
                serializer = ser,
                get_fields_method = (\<lambda>request result. []),
                get_headers_method = get_headers [''json''] \<rparr>;
       request = \<lparr> method = ''GET'', META = [], data = [] \<rparr>;
       resp = \<lparr> status_code = 200, container = [''x''], content_type = ''text/plain'',
                headers = [(''Content-Type'', ''text/plain''),
                           (''X-Serialization-Format-Options'', ''json''),
                           (''Cache-Control'', ''must-revalidate, private'')] \<rparr>;
       st = \<lparr> world = 0, cache = Some [] \<rparr>;
       st' = \<lparr> world = 1, cache = Some [(request, resp)] \<rparr>
   in get_response [] request = None
    \<and> dispatch self request [] [] st = (Inr resp, st')
    \<and> dispatch self request [] [] st' = (Inr resp, st')"
proof -
  let ?ser = "\<lparr> serializer_serialize =
                 (\<lambda>request result selected w. (Inr (Content [''x''], ''text/plain''), w)),
               serializer_deserialize = (\<lambda>request (w :: nat). (Inr request, w)) \<rparr>"
  let ?self = "\<lparr> callmap = default_callmap,
                getattr = map_of [(''read'',
                                   \<lambda>request args kwargs n. (Inr (Container [''x'']), Suc n))],
                serializer = ?ser,
                get_fields_method = (\<lambda>request result. []),
                get_headers_method = get_headers [''json''] \<rparr>"
  let ?request = "\<lparr> method = ''GET'', META = [], data = [] \<rparr>"
  let ?resp = "\<lparr> status_code = 200, container = [''x''], content_type = ''text/plain'',
                headers = [(''Content-Type'', ''text/plain''),
                           (''X-Serialization-Format-Options'', ''json''),
                           (''Cache-Control'', ''must-revalidate, private'')] \<rparr>"
  let ?st = "\<lparr> world = 0 :: nat, cache = Some [] \<rparr>"
  let ?st' = "\<lparr> world = 1 :: nat, cache = Some [(?request, ?resp)] \<rparr>"
  have h1: "cache ?st = Some []" by simp
  have h2: "get_response [] ?request = None" by (simp add: get_response_def)
  have h3: "dispatch ?self ?request [] [] ?st = (Inr ?resp, ?st')"
    by (simp add: dispatch_def get_result_def get_result_try_def deserialize_def serialize_def
        default_callmap_def upper_def upper_char_def get_headers_def HttpResponse_def
        set_header_def cache_response_def get_response_def Let_def)
  from dispatch_cache [of ?st "[]" ?request _ ?self "[]" "[]" ?resp ?st' ?self "[]" "[]"] h1 h2 h3
  have "dispatch ?self ?request [] [] ?st' = (Inr ?resp, ?st')" by blast
  with h2 h3 show ?thesis unfolding Let_def by blast
qed

end
